theory Spec2Isabelle
  imports Complex_Main
begin

section \<open>JavaScript values and containers\<close>

text \<open>
  MusicFlow is written in JavaScript against the Web Audio API. The embedding follows the
  classes of the repository: \<open>AudioEngine\<close>, \<open>InstrumentManager\<close> and the instrument
  classes, \<open>Sequencer\<close>, \<open>EffectsManager\<close> and \<open>MusicFlowApp.loadProject\<close>.

  Conventions of the model:
  \<^item> a JavaScript number that the program computes with is a \<open>real\<close>; where the source can
    produce \<open>NaN\<close> (parsing a note name, converting a non-number) the type \<open>number\<close> is used;
    rounding of IEEE doubles is not modelled;
  \<^item> a plain object used as a dictionary is an association list in insertion order, read
    with \<open>obj_get\<close>, which also sees the properties every object inherits from
    \<open>Object.prototype\<close>;
  \<^item> an ES6 \<open>Map\<close> is an association list read with \<open>map_of\<close> (a \<open>Map\<close> inherits nothing);
  \<^item> calls into the browser (DOM updates, \<open>console.log\<close>) have no effect on the modelled
    state; a function of the model gives the state its method leaves behind, whether the
    method returns or raises, and where a property depends on the exception, a second
    function (\<open>toggleStep_error\<close>, \<open>loadSequencerData_error\<close>) gives the exception raised,
    that of the browser included;
  \<^item> calls into the Web Audio API are recorded with the arguments they are given (nodes
    created, automation scheduled, sources started and stopped).
\<close>

datatype number = NaN | Num real

datatype error = TypeError | SyntaxError

text \<open>The own properties of \<open>Object.prototype\<close>; each of them is a truthy value.\<close>

definition proto_keys :: "string list" where
  "proto_keys =
    [''constructor'', ''__defineGetter__'', ''__defineSetter__'', ''hasOwnProperty'',
     ''__lookupGetter__'', ''__lookupSetter__'', ''isPrototypeOf'', ''propertyIsEnumerable'',
     ''toString'', ''valueOf'', ''__proto__'', ''toLocaleString'']"

datatype 'a lookup = Own 'a | Inherited | Undefined

text \<open>\<open>obj[k]\<close> on an object literal: an own property, an inherited one, or \<open>undefined\<close>.\<close>

definition obj_get :: "(string \<times> 'a) list \<Rightarrow> string \<Rightarrow> 'a lookup" where
  "obj_get obj k =
     (case map_of obj k of
        Some v \<Rightarrow> Own v
      | None \<Rightarrow> if List.member proto_keys k then Inherited else Undefined)"

text \<open>\<open>obj[k] = v\<close> and \<open>Map.set(k, v)\<close>: an existing key keeps its position.\<close>

fun obj_set :: "(string \<times> 'a) list \<Rightarrow> string \<Rightarrow> 'a \<Rightarrow> (string \<times> 'a) list" where
  "obj_set [] k v = [(k, v)]"
| "obj_set ((k', v') # r) k v = (if k' = k then (k, v) # r else (k', v') # obj_set r k v)"

text \<open>\<open>arr[i]\<close>: \<open>undefined\<close> outside the array.\<close>

definition arr_get :: "'a list \<Rightarrow> int \<Rightarrow> 'a option" where
  "arr_get xs i = (if 0 \<le> i \<and> i < int (length xs) then Some (xs ! nat i) else None)"

text \<open>\<open>Array.prototype.indexOf\<close>: the first index holding the value, or \<open>-1\<close>.\<close>

fun indexOf_from :: "nat \<Rightarrow> 'a list \<Rightarrow> 'a \<Rightarrow> int" where
  "indexOf_from i [] x = - 1"
| "indexOf_from i (y # ys) x = (if y = x then int i else indexOf_from (Suc i) ys x)"

definition indexOf :: "'a list \<Rightarrow> 'a \<Rightarrow> int" where
  "indexOf xs x = indexOf_from 0 xs x"

text \<open>\<open>s.slice(-1)\<close>: the last character, or the empty string.\<close>

definition slice_last :: "string \<Rightarrow> string" where
  "slice_last s = (if s = [] then [] else [last s])"

definition digit_value :: "char \<Rightarrow> nat option" where
  "digit_value c =
     map_of [(CHR ''0'', 0), (CHR ''1'', 1), (CHR ''2'', 2), (CHR ''3'', 3), (CHR ''4'', 4),
             (CHR ''5'', 5), (CHR ''6'', 6), (CHR ''7'', 7), (CHR ''8'', 8), (CHR ''9'', 9)] c"

text \<open>
  \<open>parseInt\<close> as the program uses it, on the result of \<open>slice(-1)\<close>: a string of at most
  one character. A digit gives its value, anything else \<open>NaN\<close>.
\<close>

definition parseInt :: "string \<Rightarrow> number" where
  "parseInt s =
     (case s of
        [c] \<Rightarrow> (case digit_value c of Some d \<Rightarrow> Num (real d) | None \<Rightarrow> NaN)
      | _ \<Rightarrow> NaN)"

text \<open>The first element satisfying the test is replaced; \<open>find\<close> followed by a mutation.\<close>

fun update_first :: "('a \<Rightarrow> bool) \<Rightarrow> ('a \<Rightarrow> 'a) \<Rightarrow> 'a list \<Rightarrow> 'a list" where
  "update_first P f [] = []"
| "update_first P f (x # xs) = (if P x then f x # xs else x # update_first P f xs)"

section \<open>Audio graph\<close>

datatype waveform = Sine | Square | Sawtooth

text \<open>Automation scheduled on a gain parameter: the value and the time it is scheduled for.\<close>

datatype automation =
    SetValueAtTime real real
  | LinearRampToValueAtTime real real
  | ExponentialRampToValueAtTime real real

fun automation_time :: "automation \<Rightarrow> real" where
  "automation_time (SetValueAtTime v t) = t"
| "automation_time (LinearRampToValueAtTime v t) = t"
| "automation_time (ExponentialRampToValueAtTime v t) = t"

record oscillator =
  osc_type :: waveform
  osc_frequency :: number
  osc_start :: real
  osc_stop :: "real option"

record gain_node =
  gain_value :: real
  gain_events :: "automation list"

text \<open>The pre-rendered drum buffers of \<open>DrumsInstrument.initDrumSamples\<close>.\<close>

datatype sample =
  KickSample | SnareSample | HihatSample | OpenhatSample | CrashSample | RideSample
  | TomSample real

fun sample_seconds :: "sample \<Rightarrow> real" where
  "sample_seconds KickSample = 0.5"
| "sample_seconds SnareSample = 0.3"
| "sample_seconds HihatSample = 0.1"
| "sample_seconds OpenhatSample = 0.2"
| "sample_seconds CrashSample = 1.0"
| "sample_seconds RideSample = 0.8"
| "sample_seconds (TomSample f) = 0.4"

text \<open>
  A buffer source started with \<open>source.start(when)\<close>; \<open>src_duration = None\<close> means that no
  duration was passed, so the whole buffer plays.
\<close>

record buffer_source =
  src_buffer :: sample
  src_start :: real
  src_duration :: "real option"

text \<open>
  A voice: the nodes one \<open>playNote\<close> call creates, wires to the master gain and starts.
\<close>

record voice =
  v_oscillators :: "oscillator list"
  v_buffers :: "buffer_source list"
  v_gains :: "gain_node list"

section \<open>AudioEngine\<close>

text \<open>
  \<open>ctxTime\<close> is \<open>audioContext.currentTime\<close>; \<open>graph\<close> holds the voices wired to
  \<open>masterGain\<close>; \<open>animationFrame\<close> tells whether a frame callback is requested.
\<close>

record audio_engine =
  ctxTime :: real
  isInitialized :: bool
  isPlaying_engine :: bool
  currentTime_engine :: real
  startTime :: real
  animationFrame :: bool
  masterVolume :: real
  masterGain_target :: real
  graph :: "voice list"

definition getCurrentTime :: "audio_engine \<Rightarrow> real" where
  "getCurrentTime e = ctxTime e"

definition setMasterVolume :: "real \<Rightarrow> audio_engine \<Rightarrow> audio_engine" where
  "setMasterVolume v e =
     (let mv = max 0 (min 1 v) in e\<lparr>masterVolume := mv, masterGain_target := mv\<rparr>)"

text \<open>\<open>animationLoop\<close>, as far as the state goes: the elapsed time and the next frame.\<close>

definition animationLoop :: "audio_engine \<Rightarrow> audio_engine" where
  "animationLoop e =
     (if \<not> isPlaying_engine e then e
      else e\<lparr>currentTime_engine := ctxTime e - startTime e, animationFrame := True\<rparr>)"

definition startPlayback :: "audio_engine \<Rightarrow> audio_engine" where
  "startPlayback e =
     (if \<not> isInitialized e then e
      else animationLoop
             (e\<lparr>isPlaying_engine := True, startTime := ctxTime e, currentTime_engine := 0\<rparr>))"

definition stopPlayback :: "audio_engine \<Rightarrow> audio_engine" where
  "stopPlayback e =
     (let e1 = e\<lparr>isPlaying_engine := False, currentTime_engine := 0\<rparr>
      in if animationFrame e1 then e1\<lparr>animationFrame := False\<rparr> else e1)"

definition pausePlayback :: "audio_engine \<Rightarrow> audio_engine" where
  "pausePlayback e =
     (let e1 = e\<lparr>isPlaying_engine := False\<rparr>
      in if animationFrame e1 then e1\<lparr>animationFrame := False\<rparr> else e1)"

text \<open>The engine after \<open>initAudioContext\<close>, at context time \<open>t\<close>.\<close>

definition new_AudioEngine :: "real \<Rightarrow> audio_engine" where
  "new_AudioEngine t =
     \<lparr>ctxTime = t, isInitialized = True, isPlaying_engine = False, currentTime_engine = 0,
      startTime = 0, animationFrame = False, masterVolume = 0.8, masterGain_target = 0.8,
      graph = []\<rparr>"

section \<open>Instruments\<close>

datatype instrument = Piano | Drums | Guitar | Bass | Synth | Strings

definition noteNames :: "string list" where
  "noteNames =
     [''C'', ''C#'', ''D'', ''D#'', ''E'', ''F'', ''F#'', ''G'', ''G#'', ''A'', ''A#'', ''B'']"

text \<open>
  \<open>BaseInstrument.noteToFrequency\<close>. \<open>Math.pow(2, x)\<close> is \<open>2 powr x\<close>; arithmetic on a
  \<open>NaN\<close> octave gives \<open>NaN\<close>.
\<close>

definition noteToFrequency :: "string \<Rightarrow> number" where
  "noteToFrequency note' =
     (let octave = parseInt (slice_last note');
          noteName = butlast note';
          noteIndex = indexOf noteNames noteName
      in if noteIndex = - 1 then Num 440
         else (case octave of
                 NaN \<Rightarrow> NaN
               | Num oct \<Rightarrow> Num (440 * 2 powr ((oct - 4) + (real_of_int noteIndex - 9) / 12))))"

fun num_times :: "number \<Rightarrow> real \<Rightarrow> number" where
  "num_times NaN c = NaN"
| "num_times (Num x) c = Num (x * c)"

fun num_plus :: "number \<Rightarrow> real \<Rightarrow> number" where
  "num_plus NaN c = NaN"
| "num_plus (Num x) c = Num (x + c)"

text \<open>\<open>duration || dflt\<close>: \<open>null\<close> and \<open>0\<close> are falsy.\<close>

definition or_default :: "real option \<Rightarrow> real \<Rightarrow> real" where
  "or_default duration' dflt =
     (case duration' of None \<Rightarrow> dflt | Some d \<Rightarrow> if d = 0 then dflt else d)"

text \<open>
  The envelope every tonal instrument schedules at trigger time: attack, decay to the
  sustain level, release.
\<close>

definition envelope :: "real \<Rightarrow> real \<Rightarrow> real \<Rightarrow> real \<Rightarrow> real \<Rightarrow> real \<Rightarrow> gain_node" where
  "envelope now peak attackTime decayTime sustainLevel releaseTime =
     \<lparr>gain_value = 1,
      gain_events =
        [SetValueAtTime 0 now,
         LinearRampToValueAtTime peak (now + attackTime),
         ExponentialRampToValueAtTime (sustainLevel * peak) (now + attackTime + decayTime),
         ExponentialRampToValueAtTime 0.001 (now + releaseTime)]\<rparr>"

text \<open>
  \<open>PianoInstrument.playNote\<close>: the fundamental, stopped at the end of the release, and
  three harmonic partials, each with a fixed gain and started without a scheduled stop.
\<close>

definition Piano_playNote :: "real \<Rightarrow> real \<Rightarrow> string \<Rightarrow> real \<Rightarrow> real option \<Rightarrow> voice" where
  "Piano_playNote vol now note' velocity' duration' =
     (let frequency = noteToFrequency note';
          harmonics = [(num_times frequency 2, 0.3), (num_times frequency 3, 0.2),
                       (num_times frequency 4, 0.1)];
          releaseTime = or_default duration' 2.0
      in \<lparr>v_oscillators =
             \<lparr>osc_type = Sine, osc_frequency = frequency, osc_start = now,
              osc_stop = Some (now + releaseTime)\<rparr>
             # map (\<lambda>(f, g). \<lparr>osc_type = Sine, osc_frequency = f, osc_start = now,
                              osc_stop = None\<rparr>) harmonics,
          v_buffers = [],
          v_gains =
             envelope now (velocity' * vol) 0.01 0.1 0.7 releaseTime
             # map (\<lambda>(f, g). \<lparr>gain_value = g * velocity', gain_events = []\<rparr>) harmonics\<rparr>)"

definition drumMap :: "(string \<times> string) list" where
  "drumMap =
     [(''C4'', ''kick''), (''D4'', ''snare''), (''E4'', ''hihat''), (''F4'', ''openhat''),
      (''G4'', ''crash''), (''A4'', ''ride''), (''B4'', ''tom1''), (''C5'', ''tom2''),
      (''D5'', ''tom3'')]"

definition drumSamples :: "(string \<times> sample) list" where
  "drumSamples =
     [(''kick'', KickSample), (''snare'', SnareSample), (''hihat'', HihatSample),
      (''openhat'', OpenhatSample), (''crash'', CrashSample), (''ride'', RideSample),
      (''tom1'', TomSample 200), (''tom2'', TomSample 150), (''tom3'', TomSample 100)]"

text \<open>
  \<open>drumMap[note] || 'kick'\<close>. An own entry is a non-empty string; a note that names an
  inherited property yields that property (a function or an object), which is truthy, so
  the default is not taken: \<open>None\<close> stands for such a value.
\<close>

definition drumType :: "string \<Rightarrow> string option" where
  "drumType note' =
     (case obj_get drumMap note' of
        Own d \<Rightarrow> Some d
      | Inherited \<Rightarrow> None
      | Undefined \<Rightarrow> Some ''kick'')"

text \<open>
  \<open>DrumsInstrument.playNote\<close>; the result \<open>None\<close> is the \<open>return null\<close> of a missing
  sample. An inherited function or object used as the key of \<open>drumSamples\<close> is converted
  to a string that is no key of it. The duration is never read.
\<close>

definition Drums_playNote :: "real \<Rightarrow> real \<Rightarrow> string \<Rightarrow> real \<Rightarrow> real option \<Rightarrow> voice option" where
  "Drums_playNote vol now note' velocity' duration' =
     (case drumType note' of
        None \<Rightarrow> None
      | Some d \<Rightarrow>
          (case obj_get drumSamples d of
             Own sample' \<Rightarrow>
               Some \<lparr>v_oscillators = [],
                     v_buffers = [\<lparr>src_buffer = sample', src_start = now, src_duration = None\<rparr>],
                     v_gains = [\<lparr>gain_value = velocity' * vol, gain_events = []\<rparr>]\<rparr>
           | _ \<Rightarrow> None))"

definition Guitar_playNote :: "real \<Rightarrow> real \<Rightarrow> string \<Rightarrow> real \<Rightarrow> real option \<Rightarrow> voice" where
  "Guitar_playNote vol now note' velocity' duration' =
     (let frequency = noteToFrequency note';
          harmonics = [(frequency, 1.0), (num_times frequency 2, 0.5),
                       (num_times frequency 3, 0.3), (num_times frequency 4, 0.2)];
          releaseTime = or_default duration' 1.5
      in \<lparr>v_oscillators =
             map (\<lambda>(f, g). \<lparr>osc_type = Sawtooth, osc_frequency = f, osc_start = now,
                            osc_stop = Some (now + releaseTime)\<rparr>) harmonics,
          v_buffers = [],
          v_gains =
             map (\<lambda>(f, g). envelope now (g * velocity' * vol) 0.01 0.1 0.6 releaseTime)
               harmonics\<rparr>)"

definition Bass_playNote :: "real \<Rightarrow> real \<Rightarrow> string \<Rightarrow> real \<Rightarrow> real option \<Rightarrow> voice" where
  "Bass_playNote vol now note' velocity' duration' =
     (let frequency = noteToFrequency note';
          releaseTime = or_default duration' 1.0
      in \<lparr>v_oscillators =
             [\<lparr>osc_type = Sawtooth, osc_frequency = frequency, osc_start = now,
               osc_stop = Some (now + releaseTime)\<rparr>],
          v_buffers = [],
          v_gains = [envelope now (velocity' * vol) 0.01 0.05 0.8 releaseTime]\<rparr>)"

definition Synth_playNote :: "real \<Rightarrow> real \<Rightarrow> string \<Rightarrow> real \<Rightarrow> real option \<Rightarrow> voice" where
  "Synth_playNote vol now note' velocity' duration' =
     (let frequency = noteToFrequency note';
          releaseTime = or_default duration' 2.0
      in \<lparr>v_oscillators =
             [\<lparr>osc_type = Square, osc_frequency = frequency, osc_start = now,
               osc_stop = Some (now + releaseTime)\<rparr>,
              \<lparr>osc_type = Sawtooth, osc_frequency = num_times frequency 0.5, osc_start = now,
               osc_stop = Some (now + releaseTime)\<rparr>],
          v_buffers = [],
          v_gains = [envelope now (velocity' * vol) 0.1 0.2 0.7 releaseTime]\<rparr>)"

text \<open>
  \<open>StringsInstrument.playNote\<close>: three voices \<open>i = 0, 1, 2\<close>, each a detuned sine with its
  own vibrato oscillator (5 Hz, depth 2) and envelope.
\<close>

definition Strings_playNote :: "real \<Rightarrow> real \<Rightarrow> string \<Rightarrow> real \<Rightarrow> real option \<Rightarrow> voice" where
  "Strings_playNote vol now note' velocity' duration' =
     (let frequency = noteToFrequency note';
          releaseTime = or_default duration' 3.0
      in \<lparr>v_oscillators =
             concat (map (\<lambda>i. [\<lparr>osc_type = Sine, osc_frequency = num_plus frequency (real i * 0.1),
                                 osc_start = now, osc_stop = Some (now + releaseTime)\<rparr>,
                                \<lparr>osc_type = Sine, osc_frequency = Num 5,
                                 osc_start = now, osc_stop = Some (now + releaseTime)\<rparr>])
                      [0, 1, 2 :: nat]),
          v_buffers = [],
          v_gains =
             concat (map (\<lambda>i. [envelope now (velocity' * vol * 0.3) 0.3 0.1 0.8 releaseTime,
                                \<lparr>gain_value = 2, gain_events = []\<rparr>])
                      [0, 1, 2 :: nat])\<rparr>)"

text \<open>
  One instrument object: its \<open>volume\<close> and its \<open>activeNotes\<close> map from note to the data of
  the last voice triggered for it.
\<close>

record instrument_state =
  volume_instrument :: real
  activeNotes :: "(string \<times> voice) list"

record instrument_manager =
  instruments :: "instrument \<Rightarrow> instrument_state"
  activeInstrument :: instrument
  currentOctave :: int

definition new_InstrumentManager :: instrument_manager where
  "new_InstrumentManager =
     \<lparr>instruments = (\<lambda>i. \<lparr>volume_instrument = 0.8, activeNotes = []\<rparr>),
      activeInstrument = Piano, currentOctave = 4\<rparr>"

definition setActiveInstrument :: "instrument \<Rightarrow> instrument_manager \<Rightarrow> instrument_manager" where
  "setActiveInstrument instrumentName m = m\<lparr>activeInstrument := instrumentName\<rparr>"

text \<open>
  The \<open>playNote\<close> of the instrument classes, by dynamic dispatch. The drums return their
  voice without recording it in \<open>activeNotes\<close>; the other instruments record it there.
\<close>

definition instrument_playNote ::
  "instrument \<Rightarrow> real \<Rightarrow> real \<Rightarrow> string \<Rightarrow> real \<Rightarrow> real option \<Rightarrow> voice option \<times> bool" where
  "instrument_playNote i vol now note' velocity' duration' =
     (case i of
        Piano \<Rightarrow> (Some (Piano_playNote vol now note' velocity' duration'), True)
      | Drums \<Rightarrow> (Drums_playNote vol now note' velocity' duration', False)
      | Guitar \<Rightarrow> (Some (Guitar_playNote vol now note' velocity' duration'), True)
      | Bass \<Rightarrow> (Some (Bass_playNote vol now note' velocity' duration'), True)
      | Synth \<Rightarrow> (Some (Synth_playNote vol now note' velocity' duration'), True)
      | Strings \<Rightarrow> (Some (Strings_playNote vol now note' velocity' duration'), True))"

text \<open>
  \<open>InstrumentManager.playNote\<close> on the engine and the manager: the new voice joins the
  graph, and the active instrument's \<open>activeNotes\<close> where the class keeps one.
\<close>

definition playNote ::
  "string \<Rightarrow> real \<Rightarrow> real option \<Rightarrow> audio_engine \<times> instrument_manager
     \<Rightarrow> audio_engine \<times> instrument_manager" where
  "playNote note' velocity' duration' em =
     (let e = fst em; m = snd em;
          i = activeInstrument m;
          st = instruments m i
      in case instrument_playNote i (volume_instrument st) (ctxTime e) note' velocity' duration' of
           (None, _) \<Rightarrow> (e, m)
         | (Some v, registers) \<Rightarrow>
             (e\<lparr>graph := graph e @ [v]\<rparr>,
              if registers
              then m\<lparr>instruments := (instruments m)(i := st\<lparr>activeNotes := obj_set (activeNotes st) note' v\<rparr>)\<rparr>
              else m))"

section \<open>Sequencer\<close>

record step =
  active :: bool
  velocity :: real
  note_step :: string
  duration :: real

record track =
  id_track :: string
  name_track :: string
  instrument_track :: instrument
  volume :: real
  muted :: bool
  solo :: bool
  pattern_track :: "step list"

text \<open>
  A pattern object \<open>{id, name, tracks}\<close>; \<open>tracks\<close> is a dictionary from track id to the
  step array, and is \<open>None\<close> when a loaded pattern has no such property.
\<close>

record pattern_obj =
  id_pattern :: string
  name_pattern :: string
  tracks_pattern :: "(string \<times> step list) list option"

text \<open>
  The fields of the \<open>Sequencer\<close> object. \<open>audioEngine\<close> and \<open>instrumentManager\<close> are the
  objects it was constructed with; \<open>schedulerInterval\<close> tells whether the 10 ms timer is
  set; \<open>activePattern\<close> is \<open>None\<close> for \<open>null\<close>.
\<close>

record sequencer =
  audioEngine :: audio_engine
  instrumentManager :: instrument_manager
  bpm :: real
  stepsPerBeat :: real
  totalSteps :: nat
  currentStep :: nat
  isPlaying :: bool
  isRecording :: bool
  stepDuration :: real
  nextStepTime :: real
  schedulerInterval :: bool
  tracks :: "track list"
  patterns :: "(string \<times> pattern_obj) list"
  activePattern :: "string option"

definition createEmptyPattern :: "sequencer \<Rightarrow> step list" where
  "createEmptyPattern s =
     replicate (totalSteps s) \<lparr>active = False, velocity = 0.8, note_step = ''C4'', duration = 1\<rparr>"

definition createDefaultTracks :: "sequencer \<Rightarrow> sequencer" where
  "createDefaultTracks s =
     s\<lparr>tracks :=
         map (\<lambda>(i, n, k, v). \<lparr>id_track = i, name_track = n, instrument_track = k, volume = v,
                              muted = False, solo = False,
                              pattern_track = createEmptyPattern s\<rparr>)
           [(''track-1'', ''Piano'', Piano, 0.8), (''track-2'', ''Drums'', Drums, 0.9),
            (''track-3'', ''Bass'', Bass, 0.7), (''track-4'', ''Synth'', Synth, 0.6)]\<rparr>"

definition createDefaultPattern :: "sequencer \<Rightarrow> sequencer" where
  "createDefaultPattern s =
     (let patternId = ''default-pattern'';
          trs = foldl (\<lambda>acc t. obj_set acc (id_track t) (createEmptyPattern s)) [] (tracks s);
          pattern' = \<lparr>id_pattern = patternId, name_pattern = ''Default Pattern'',
                      tracks_pattern = Some trs\<rparr>
      in s\<lparr>patterns := obj_set (patterns s) patternId pattern',
           activePattern := Some patternId\<rparr>)"

text \<open>The constructor, followed by \<open>init\<close>.\<close>

definition new_Sequencer :: "audio_engine \<Rightarrow> instrument_manager \<Rightarrow> sequencer" where
  "new_Sequencer e m =
     createDefaultPattern (createDefaultTracks
       \<lparr>audioEngine = e, instrumentManager = m, bpm = 120, stepsPerBeat = 4, totalSteps = 16,
        currentStep = 0, isPlaying = False, isRecording = False,
        stepDuration = 60 / (120 * 4), nextStepTime = 0, schedulerInterval = False,
        tracks = [], patterns = [], activePattern = None\<rparr>)"

definition setBPM :: "real \<Rightarrow> sequencer \<Rightarrow> sequencer" where
  "setBPM bpm' s =
     (let s1 = s\<lparr>bpm := max 60 (min 200 bpm')\<rparr>
      in s1\<lparr>stepDuration := 60 / (bpm s1 * stepsPerBeat s1)\<rparr>)"

definition getBPM :: "sequencer \<Rightarrow> real" where
  "getBPM s = bpm s"

definition setTrackVolume :: "string \<Rightarrow> real \<Rightarrow> sequencer \<Rightarrow> sequencer" where
  "setTrackVolume trackId volume' s =
     s\<lparr>tracks := update_first (\<lambda>t. id_track t = trackId)
                    (\<lambda>t. t\<lparr>volume := max 0 (min 1 volume')\<rparr>) (tracks s)\<rparr>"

definition toggleTrackMute :: "string \<Rightarrow> sequencer \<Rightarrow> sequencer" where
  "toggleTrackMute trackId s =
     s\<lparr>tracks := update_first (\<lambda>t. id_track t = trackId)
                    (\<lambda>t. t\<lparr>muted := \<not> muted t\<rparr>) (tracks s)\<rparr>"

text \<open>
  \<open>toggleTrackSolo\<close>: the track found first under the id has its \<open>solo\<close> flag flipped;
  when that sets it, every track with another id is muted, otherwise every track is
  unmuted.
\<close>

definition toggleTrackSolo :: "string \<Rightarrow> sequencer \<Rightarrow> sequencer" where
  "toggleTrackSolo trackId s =
     (case find (\<lambda>t. id_track t = trackId) (tracks s) of
        None \<Rightarrow> s
      | Some track' \<Rightarrow>
          (let ts = update_first (\<lambda>t. id_track t = trackId) (\<lambda>t. t\<lparr>solo := \<not> solo t\<rparr>)
                      (tracks s)
           in if \<not> solo track'
              then s\<lparr>tracks := map (\<lambda>t. if id_track t \<noteq> trackId then t\<lparr>muted := True\<rparr> else t) ts\<rparr>
              else s\<lparr>tracks := map (\<lambda>t. t\<lparr>muted := False\<rparr>) ts\<rparr>))"

text \<open>
  What \<open>getPatternForTrack\<close> returns: the array stored in the active pattern, a fresh
  array from \<open>createEmptyPattern\<close>, or (for a track id that names an inherited property of
  the \<open>tracks\<close> dictionary) an inherited function or object, which is truthy and has no
  element at any index.
\<close>

datatype steps_ref = Stored "step list" | Fresh "step list" | Foreign

definition getPatternForTrack :: "string \<Rightarrow> sequencer \<Rightarrow> steps_ref" where
  "getPatternForTrack trackId s =
     (case (case activePattern s of None \<Rightarrow> None | Some k \<Rightarrow> map_of (patterns s) k) of
        None \<Rightarrow> Fresh (createEmptyPattern s)
      | Some pattern' \<Rightarrow>
          (case tracks_pattern pattern' of
             None \<Rightarrow> Fresh (createEmptyPattern s)
           | Some trs \<Rightarrow>
               (case obj_get trs trackId of
                  Own steps \<Rightarrow> Stored steps
                | Inherited \<Rightarrow> Foreign
                | Undefined \<Rightarrow> Fresh (createEmptyPattern s))))"

fun steps_of :: "steps_ref \<Rightarrow> step list" where
  "steps_of (Stored steps) = steps"
| "steps_of (Fresh steps) = steps"
| "steps_of Foreign = []"

text \<open>
  A write to a field of step \<open>i\<close> of the array that the active pattern stores for the
  track: the array is shared with the pattern store, so the store changes.
\<close>

definition modify_step :: "string \<Rightarrow> nat \<Rightarrow> (step \<Rightarrow> step) \<Rightarrow> sequencer \<Rightarrow> sequencer" where
  "modify_step trackId i f s =
     (case activePattern s of
        None \<Rightarrow> s
      | Some k \<Rightarrow>
          s\<lparr>patterns :=
              update_first (\<lambda>(k', p). k' = k)
                (\<lambda>(k', p). (k', p\<lparr>tracks_pattern :=
                     map_option
                       (update_first (\<lambda>(t, steps). t = trackId)
                          (\<lambda>(t, steps). (t, steps[i := f (steps ! i)])))
                       (tracks_pattern p)\<rparr>))
                (patterns s)\<rparr>)"

text \<open>
  A write through \<open>getPatternForTrack\<close>, guarded by \<open>pattern && pattern[stepIndex]\<close>: it
  reaches the store only for a stored array and an index inside it. On a fresh array the
  write is lost with the array.
\<close>

definition write_step :: "string \<Rightarrow> int \<Rightarrow> (step \<Rightarrow> step) \<Rightarrow> sequencer \<Rightarrow> sequencer" where
  "write_step trackId stepIndex f s =
     (case getPatternForTrack trackId s of
        Stored steps \<Rightarrow>
          (case arr_get steps stepIndex of
             Some st \<Rightarrow> modify_step trackId (nat stepIndex) f s
           | None \<Rightarrow> s)
      | Fresh steps \<Rightarrow> s
      | Foreign \<Rightarrow> s)"

definition toggleStep :: "string \<Rightarrow> int \<Rightarrow> sequencer \<Rightarrow> sequencer" where
  "toggleStep trackId stepIndex s =
     write_step trackId stepIndex (\<lambda>st. st\<lparr>active := \<not> active st\<rparr>) s"

text \<open>The context-menu actions: \<open>clear-step\<close>, and the two prompts once answered.\<close>

definition clearStep :: "string \<Rightarrow> int \<Rightarrow> sequencer \<Rightarrow> sequencer" where
  "clearStep trackId stepIndex s = write_step trackId stepIndex (\<lambda>st. st\<lparr>active := False\<rparr>) s"

definition promptForNote :: "string \<Rightarrow> int \<Rightarrow> string \<Rightarrow> sequencer \<Rightarrow> sequencer" where
  "promptForNote trackId stepIndex answer s =
     (if answer = [] then s else write_step trackId stepIndex (\<lambda>st. st\<lparr>note_step := answer\<rparr>) s)"

definition promptForVelocity :: "string \<Rightarrow> int \<Rightarrow> real \<Rightarrow> sequencer \<Rightarrow> sequencer" where
  "promptForVelocity trackId stepIndex answer s =
     (if 0 \<le> answer \<and> answer \<le> 1
      then write_step trackId stepIndex (\<lambda>st. st\<lparr>velocity := answer\<rparr>) s
      else s)"

definition startScheduler :: "sequencer \<Rightarrow> sequencer" where
  "startScheduler s = s\<lparr>schedulerInterval := True\<rparr>"

definition stopScheduler :: "sequencer \<Rightarrow> sequencer" where
  "stopScheduler s = (if schedulerInterval s then s\<lparr>schedulerInterval := False\<rparr> else s)"

definition play :: "sequencer \<Rightarrow> sequencer" where
  "play s =
     (if isPlaying s then s
      else startScheduler
             (let s1 = s\<lparr>isPlaying := True, currentStep := 0,
                         nextStepTime := getCurrentTime (audioEngine s)\<rparr>
              in s1\<lparr>audioEngine := startPlayback (audioEngine s1)\<rparr>))"

definition pause :: "sequencer \<Rightarrow> sequencer" where
  "pause s =
     stopScheduler
       (let s1 = s\<lparr>isPlaying := False\<rparr> in s1\<lparr>audioEngine := pausePlayback (audioEngine s1)\<rparr>)"

text \<open>
  \<open>stop\<close>: the flags, the engine's \<open>stopPlayback\<close> and the timer. Nothing in it calls into
  the instrument manager.
\<close>

definition stop :: "sequencer \<Rightarrow> sequencer" where
  "stop s =
     stopScheduler
       (let s1 = s\<lparr>isPlaying := False, currentStep := 0\<rparr>
        in s1\<lparr>audioEngine := stopPlayback (audioEngine s1)\<rparr>)"

definition toggleRecord :: "sequencer \<Rightarrow> sequencer" where
  "toggleRecord s = s\<lparr>isRecording := \<not> isRecording s\<rparr>"

text \<open>
  \<open>playStep\<close>, one track of the \<open>forEach\<close>: a muted track is skipped; an active step sets
  the active instrument and plays the note for \<open>stepDuration * step.duration\<close>.
\<close>

definition playStep_track ::
  "nat \<Rightarrow> sequencer \<Rightarrow> audio_engine \<times> instrument_manager \<Rightarrow> track
     \<Rightarrow> audio_engine \<times> instrument_manager" where
  "playStep_track stepIndex s em track' =
     (if muted track' then em
      else case arr_get (steps_of (getPatternForTrack (id_track track') s)) (int stepIndex) of
             None \<Rightarrow> em
           | Some st \<Rightarrow>
               if active st
               then playNote (note_step st) (velocity st) (Some (stepDuration s * duration st))
                      (fst em, setActiveInstrument (instrument_track track') (snd em))
               else em)"

definition playStep :: "nat \<Rightarrow> sequencer \<Rightarrow> sequencer" where
  "playStep stepIndex s =
     (let em = foldl (playStep_track stepIndex s) (audioEngine s, instrumentManager s) (tracks s)
      in s\<lparr>audioEngine := fst em, instrumentManager := snd em\<rparr>)"

text \<open>The body of the \<open>while\<close> loop of \<open>scheduleSteps\<close>.\<close>

definition advance :: "sequencer \<Rightarrow> sequencer" where
  "advance s =
     (let s1 = playStep (currentStep s) s;
          s2 = s1\<lparr>currentStep := (currentStep s1 + 1) mod totalSteps s1\<rparr>
      in s2\<lparr>nextStepTime := nextStepTime s2 + stepDuration s2\<rparr>)"

text \<open>
  The loop itself. It runs as long as the next step lies within 100 ms of the current
  time, so a non-positive \<open>stepDuration\<close> would keep it running: the result is an option,
  \<open>None\<close> when the loop does not return.
\<close>

partial_function (option) scheduleLoop :: "real \<Rightarrow> sequencer \<Rightarrow> sequencer option" where
  "scheduleLoop currentTime s =
     (if nextStepTime s \<le> currentTime + 0.1 then scheduleLoop currentTime (advance s)
      else Some s)"

definition scheduleSteps :: "sequencer \<Rightarrow> sequencer option" where
  "scheduleSteps s = scheduleLoop (getCurrentTime (audioEngine s)) s"

subsection \<open>The page\<close>

text \<open>
  What the methods need of the document they run in, which is not part of the sources:
  whether it has the elements \<open>tracksContainer\<close> and \<open>mixerChannels\<close> that \<open>setupUI\<close> looks up
  and keeps in the fields of these names, and which selector texts \<open>querySelector\<close> accepts
  (it raises a \<open>SyntaxError\<close> on the others).
\<close>

record page =
  tracksContainer :: bool
  mixerChannels :: bool
  selector_ok :: "string \<Rightarrow> bool"

text \<open>The selector \<open>[data-track-id="..."]\<close> that \<open>updateStepUI\<close> builds from the raw track id.\<close>

definition track_selector :: "string \<Rightarrow> string" where
  "track_selector trackId = ''[data-track-id='' @ [CHR 0x22] @ trackId @ [CHR 0x22] @ '']''"

text \<open>
  The exception of \<open>updateStepUI\<close>: its first statement is
  \<open>document.querySelector\<close> on the track selector. The query for the step that follows
  has an integer between its quotes, which every selector parser accepts, and the rest
  reads the pattern as \<open>toggleStep\<close> has already done.
\<close>

definition updateStepUI_error :: "page \<Rightarrow> string \<Rightarrow> int \<Rightarrow> sequencer \<Rightarrow> error option" where
  "updateStepUI_error page' trackId stepIndex s =
     (if selector_ok page' (track_selector trackId) then None else Some SyntaxError)"

text \<open>
  The exception of \<open>toggleStep\<close>: \<open>updateStepUI\<close> is called, after the toggle, when the
  guard \<open>pattern && pattern[stepIndex]\<close> holds, be the array stored or fresh.
\<close>

definition toggleStep_error :: "page \<Rightarrow> string \<Rightarrow> int \<Rightarrow> sequencer \<Rightarrow> error option" where
  "toggleStep_error page' trackId stepIndex s =
     (case arr_get (steps_of (getPatternForTrack trackId s)) stepIndex of
        None \<Rightarrow> None
      | Some st \<Rightarrow> updateStepUI_error page' trackId stepIndex (toggleStep trackId stepIndex s))"

text \<open>
  \<open>createPatternSteps(pattern)\<close> calls \<open>pattern.map\<close>: an array has it, an inherited function
  or object does not, and the call raises a \<open>TypeError\<close>.
\<close>

definition createPatternSteps_error :: "steps_ref \<Rightarrow> error option" where
  "createPatternSteps_error pattern' =
     (case pattern' of Foreign \<Rightarrow> Some TypeError | _ \<Rightarrow> None)"

text \<open>
  The exception of \<open>renderTracks\<close>: without the container it returns at once; otherwise
  \<open>createTrackElement\<close> runs for every track in turn and renders the steps of
  \<open>getPatternForTrack(track.id)\<close>; the first exception ends the loop.
\<close>

fun createTrackElements_error :: "sequencer \<Rightarrow> track list \<Rightarrow> error option" where
  "createTrackElements_error s [] = None"
| "createTrackElements_error s (track' # rest) =
     (case createPatternSteps_error (getPatternForTrack (id_track track') s) of
        Some e \<Rightarrow> Some e
      | None \<Rightarrow> createTrackElements_error s rest)"

definition renderTracks_error :: "page \<Rightarrow> sequencer \<Rightarrow> error option" where
  "renderTracks_error page' s =
     (if \<not> tracksContainer page' then None else createTrackElements_error s (tracks s))"

text \<open>
  \<open>renderMixer\<close> builds each channel from the name and the volume of its track alone, and
  raises nothing.
\<close>

definition renderMixer_error :: "page \<Rightarrow> sequencer \<Rightarrow> error option" where
  "renderMixer_error page' s = None"

subsection \<open>Saving and loading\<close>

text \<open>
  The payload of \<open>loadSequencerData\<close>, as read back from storage. Each property may be
  missing (\<open>None\<close>). \<open>tracks\<close>, when present, is an array of track objects and
  \<open>activePattern\<close> a string. \<open>patterns\<close> is what \<open>new Map(...)\<close> is given: an array whose
  elements are \<open>[id, pattern]\<close> entries or something that is no entry (a number, a string,
  \<open>null\<close>), or a truthy value that cannot be iterated (a number, a plain object).
\<close>

datatype entry = Entry string pattern_obj | NotAnEntry

datatype patterns_field = Entries "entry list" | NotIterable

record sequencer_data =
  bpm_data :: "real option"
  stepsPerBeat_data :: "real option"
  totalSteps_data :: "nat option"
  tracks_data :: "track list option"
  patterns_data :: "patterns_field option"
  activePattern_data :: "string option"

definition getSequencerData :: "sequencer \<Rightarrow> sequencer_data" where
  "getSequencerData s =
     \<lparr>bpm_data = Some (bpm s), stepsPerBeat_data = Some (stepsPerBeat s),
      totalSteps_data = Some (totalSteps s), tracks_data = Some (tracks s),
      patterns_data = Some (Entries (map (\<lambda>(k, p). Entry k p) (patterns s))),
      activePattern_data = activePattern s\<rparr>"

text \<open>
  The \<open>Map\<close> constructor: it raises a \<open>TypeError\<close> on a value that is not iterable and on
  the first element that is not an entry; the map under construction is then lost.
\<close>

fun Map_entries :: "(string \<times> pattern_obj) list \<Rightarrow> entry list \<Rightarrow> error + (string \<times> pattern_obj) list" where
  "Map_entries acc [] = Inr acc"
| "Map_entries acc (NotAnEntry # es) = Inl TypeError"
| "Map_entries acc (Entry k p # es) = Map_entries (obj_set acc k p) es"

fun new_Map :: "patterns_field \<Rightarrow> error + (string \<times> pattern_obj) list" where
  "new_Map NotIterable = Inl TypeError"
| "new_Map (Entries es) = Map_entries [] es"

text \<open>
  \<open>loadSequencerData\<close>, the sequencer it leaves behind. The four guarded assignments run
  in the order of the source; an exception of \<open>new Map\<close> leaves the object as the
  assignments before it made it, and the rendering that follows the assignments changes
  no field. The tests are truthiness tests: a \<open>bpm\<close> of \<open>0\<close> and an empty \<open>activePattern\<close>
  string are skipped, an empty array is not.
\<close>

definition loadSequencerData :: "sequencer_data \<Rightarrow> sequencer \<Rightarrow> sequencer" where
  "loadSequencerData data' s =
     (let s1 = (case bpm_data data' of
                  Some b \<Rightarrow> if b \<noteq> 0 then setBPM b s else s
                | None \<Rightarrow> s);
          s2 = (case tracks_data data' of
                  Some ts \<Rightarrow> s1\<lparr>tracks := ts\<rparr>
                | None \<Rightarrow> s1);
          activate = (\<lambda>s3. case activePattern_data data' of
                              Some a \<Rightarrow> if a \<noteq> [] then s3\<lparr>activePattern := Some a\<rparr> else s3
                            | None \<Rightarrow> s3)
      in case patterns_data data' of
           None \<Rightarrow> activate s2
         | Some pf \<Rightarrow>
             (case new_Map pf of
                Inl e \<Rightarrow> s2
              | Inr m \<Rightarrow> activate (s2\<lparr>patterns := m\<rparr>)))"

text \<open>
  The exception of the third statement of \<open>loadSequencerData\<close>,
  \<open>if (data.patterns) this.patterns = new Map(data.patterns)\<close>, if any.
\<close>

definition patterns_error :: "sequencer_data \<Rightarrow> error option" where
  "patterns_error data' =
     (case patterns_data data' of
        None \<Rightarrow> None
      | Some pf \<Rightarrow> (case new_Map pf of Inl e \<Rightarrow> Some e | Inr m \<Rightarrow> None))"

text \<open>
  The exception of \<open>loadSequencerData\<close>, if any: that of \<open>new Map\<close>, or else, after all
  four assignments, that of \<open>renderTracks()\<close> followed by \<open>renderMixer()\<close> on the sequencer
  as loaded. Setting the tempo controls at the end raises nothing.
\<close>

definition loadSequencerData_error :: "page \<Rightarrow> sequencer_data \<Rightarrow> sequencer \<Rightarrow> error option" where
  "loadSequencerData_error page' data' s =
     (case patterns_error data' of
        Some e \<Rightarrow> Some e
      | None \<Rightarrow>
          (case renderTracks_error page' (loadSequencerData data' s) of
             Some e \<Rightarrow> Some e
           | None \<Rightarrow> renderMixer_error page' (loadSequencerData data' s)))"

subsection \<open>Runs of the sequencer\<close>

text \<open>
  The operations that reach a sequencer: its public methods, the callback of its timer
  (which runs only while the timer is set), the frame callback of the engine, and the
  audio clock moving forward.
\<close>

datatype operation =
    SetBPM real
  | SetTrackVolume string real
  | ToggleTrackMute string
  | ToggleTrackSolo string
  | ToggleStep string int
  | ClearStep string int
  | SetStepNote string int string
  | SetStepVelocity string int real
  | Play
  | Pause
  | Stop
  | ToggleRecord
  | TimerTick
  | AnimationFrame
  | ClockAdvance real
  | SetMasterVolume real
  | LoadSequencerData sequencer_data

fun exec :: "operation \<Rightarrow> sequencer \<Rightarrow> sequencer option" where
  "exec (SetBPM b) s = Some (setBPM b s)"
| "exec (SetTrackVolume t v) s = Some (setTrackVolume t v s)"
| "exec (ToggleTrackMute t) s = Some (toggleTrackMute t s)"
| "exec (ToggleTrackSolo t) s = Some (toggleTrackSolo t s)"
| "exec (ToggleStep t i) s = Some (toggleStep t i s)"
| "exec (ClearStep t i) s = Some (clearStep t i s)"
| "exec (SetStepNote t i n) s = Some (promptForNote t i n s)"
| "exec (SetStepVelocity t i v) s = Some (promptForVelocity t i v s)"
| "exec Play s = Some (play s)"
| "exec Pause s = Some (pause s)"
| "exec Stop s = Some (stop s)"
| "exec ToggleRecord s = Some (toggleRecord s)"
| "exec TimerTick s = (if schedulerInterval s then scheduleSteps s else Some s)"
| "exec AnimationFrame s =
     Some (if animationFrame (audioEngine s)
           then s\<lparr>audioEngine := animationLoop (audioEngine s)\<rparr> else s)"
| "exec (ClockAdvance dt) s =
     Some (s\<lparr>audioEngine := (audioEngine s)\<lparr>ctxTime := ctxTime (audioEngine s) + max 0 dt\<rparr>\<rparr>)"
| "exec (SetMasterVolume v) s = Some (s\<lparr>audioEngine := setMasterVolume v (audioEngine s)\<rparr>)"
| "exec (LoadSequencerData d) s = Some (loadSequencerData d s)"

text \<open>
  The states a sequencer can be in: freshly constructed on an initialised engine, or
  reached from such a state by an operation that comes to an end, be it by returning or
  by raising an exception.
\<close>

inductive reachable :: "sequencer \<Rightarrow> bool" where
  initial: "0 \<le> t \<Longrightarrow> reachable (new_Sequencer (new_AudioEngine t) new_InstrumentManager)"
| step: "reachable s \<Longrightarrow> exec op s = Some s' \<Longrightarrow> reachable s'"

subsection \<open>Auxiliary notions for the properties\<close>

text \<open>The sequencer constructed at context time \<open>0\<close>, as the application does at start.\<close>

definition initial_sequencer :: sequencer where
  "initial_sequencer = new_Sequencer (new_AudioEngine 0) new_InstrumentManager"

text \<open>
  What one run of the scheduling loop may change: the engine, the instrument manager, the
  current step and the time of the next step.
\<close>

definition scheduler_frame :: "sequencer \<Rightarrow> sequencer \<Rightarrow> bool" where
  "scheduler_frame s s' \<longleftrightarrow>
     s' = s\<lparr>audioEngine := audioEngine s', instrumentManager := instrumentManager s',
            currentStep := currentStep s', nextStepTime := nextStepTime s'\<rparr>"

text \<open>
  The timing fields as the constructor and \<open>setBPM\<close> leave them: four steps per beat,
  sixteen steps, a tempo between 60 and 200, and the step duration computed from it.
\<close>

definition timing_ok :: "sequencer \<Rightarrow> bool" where
  "timing_ok s \<longleftrightarrow>
     stepsPerBeat s = 4 \<and> totalSteps s = 16 \<and> 60 \<le> bpm s \<and> bpm s \<le> 200 \<and>
     stepDuration s = 60 / (bpm s * 4)"

text \<open>
  The \<open>active\<close> flag of the step that \<open>getPatternForTrack(trackId)[stepIndex]\<close> addresses,
  as \<open>updateStepUI\<close> reads it; \<open>None\<close> when there is no such step.
\<close>

definition stepActive :: "string \<Rightarrow> int \<Rightarrow> sequencer \<Rightarrow> bool option" where
  "stepActive trackId stepIndex s =
     map_option active (arr_get (steps_of (getPatternForTrack trackId s)) stepIndex)"

text \<open>
  The track id has an entry of its own in the \<open>tracks\<close> dictionary of the active pattern.
\<close>

definition has_entry :: "string \<Rightarrow> sequencer \<Rightarrow> bool" where
  "has_entry trackId s = (case getPatternForTrack trackId s of Stored steps \<Rightarrow> True | _ \<Rightarrow> False)"

text \<open>
  The step that \<open>createEmptyPattern\<close> fills a pattern with.
\<close>

definition empty_step :: step where
  "empty_step = \<lparr>active = False, velocity = 0.8, note_step = ''C4'', duration = 1\<rparr>"

text \<open>The voices triggered so far: everything \<open>playNote\<close> has wired to the master gain.\<close>

definition live_voices :: "sequencer \<Rightarrow> voice list" where
  "live_voices s = graph (audioEngine s)"

text \<open>A voice has envelope automation scheduled for a time after \<open>t\<close>.\<close>

definition automation_pending :: "real \<Rightarrow> voice \<Rightarrow> bool" where
  "automation_pending t v =
     list_ex (\<lambda>g. list_ex (\<lambda>a. t < automation_time a) (gain_events g)) (v_gains v)"

text \<open>
  A voice has a source that still runs after \<open>t\<close>: an oscillator with no scheduled stop or
  one scheduled later, or a buffer that has not played to its end.
\<close>

definition sounds_after :: "real \<Rightarrow> voice \<Rightarrow> bool" where
  "sounds_after t v =
     (list_ex (\<lambda>osc. case osc_stop osc of None \<Rightarrow> True | Some t' \<Rightarrow> t < t') (v_oscillators v)
      \<or> list_ex (\<lambda>b. t < src_start b +
                      (case src_duration b of None \<Rightarrow> sample_seconds (src_buffer b) | Some d \<Rightarrow> d))
           (v_buffers v))"

text \<open>
  All live voices are retracted at the current context time: none has automation pending
  and none keeps sounding.
\<close>

definition voices_retracted :: "sequencer \<Rightarrow> bool" where
  "voices_retracted s =
     list_all (\<lambda>v. \<not> automation_pending (ctxTime (audioEngine s)) v
                    \<and> \<not> sounds_after (ctxTime (audioEngine s)) v)
       (live_voices s)"

text \<open>
  The constructed sequencer with step 0 of the piano track switched on, started, and the
  timer callback run once at context time \<open>0\<close>: the loop body has run once.
\<close>

definition triggered_sequencer :: sequencer where
  "triggered_sequencer = advance (play (toggleStep ''track-1'' 0 initial_sequencer))"

section \<open>EffectsManager\<close>

text \<open>
  The value of an effect parameter: the settings objects hold numbers, the \<open>enabled\<close>
  flag and the filter's \<open>type\<close> string.
\<close>

datatype pval = PNum real | PBool bool | PStr string

text \<open>
  The conversion to a number that arithmetic and the audio parameters apply. The strings
  of the model are names such as \<open>lowpass\<close>, which convert to \<open>NaN\<close>; a string that spells
  a number is not among them.
\<close>

fun toNumber :: "pval \<Rightarrow> number" where
  "toNumber (PNum r) = Num r"
| "toNumber (PBool b) = Num (if b then 1 else 0)"
| "toNumber (PStr s) = NaN"

fun one_minus :: "number \<Rightarrow> number" where
  "one_minus NaN = NaN"
| "one_minus (Num x) = Num (1 - x)"

text \<open>
  An audio parameter: the value it was given by assignment, and the last
  \<open>setTargetAtTime(target, startTime, timeConstant)\<close> scheduled on it.
\<close>

record audio_param =
  param_value :: number
  param_target :: "(number \<times> real \<times> real) option"

definition new_param :: "real \<Rightarrow> audio_param" where
  "new_param v = \<lparr>param_value = Num v, param_target = None\<rparr>"

definition setTargetAtTime :: "number \<Rightarrow> real \<Rightarrow> real \<Rightarrow> audio_param \<Rightarrow> audio_param" where
  "setTargetAtTime target' startTime' timeConstant p =
     p\<lparr>param_target := Some (target', startTime', timeConstant)\<rparr>"

text \<open>The value a parameter holds once its scheduled approach has settled.\<close>

definition settles_at :: "audio_param \<Rightarrow> number" where
  "settles_at p = (case param_target p of None \<Rightarrow> param_value p | Some (v, t, c) \<Rightarrow> v)"

text \<open>
  The entries of the \<open>effects\<close> map. The convolver's impulse response is random noise and
  is left out; of the wave shaper the model keeps the amount its curve was computed from.
\<close>

record reverb_nodes =
  reverb_inputGain :: audio_param
  reverb_dryGain :: audio_param
  reverb_wetGain :: audio_param
  reverb_enabled :: bool

record delay_nodes =
  delay_delayTime :: audio_param
  delay_feedbackGain :: audio_param
  delay_wetGain :: audio_param
  delay_dryGain :: audio_param
  delay_enabled :: bool

record distortion_nodes =
  waveshaper_amount :: number
  distortion_inputGain :: audio_param
  toneFilter_frequency :: audio_param
  distortion_enabled :: bool

record filter_nodes =
  filter_type :: string
  filter_frequency :: audio_param
  filter_Q :: audio_param
  filter_enabled :: bool

text \<open>
  The \<open>effects\<close> map has the keys \<open>reverb\<close>, \<open>delay\<close>, \<open>distortion\<close> and \<open>filter\<close>, each with
  its own shape of entry, until \<open>dispose\<close> clears it: one optional field for each key.
\<close>

record effects_map =
  fx_reverb :: "reverb_nodes option"
  fx_delay :: "delay_nodes option"
  fx_distortion :: "distortion_nodes option"
  fx_filter :: "filter_nodes option"

text \<open>
  The \<open>EffectsManager\<close> object. \<open>globalEffects\<close> maps an effect name to its settings
  object, a dictionary from parameter name to value. A track's effect chain consists of
  audio nodes that no operation here changes; of \<open>effectChains\<close> the track ids are kept.
\<close>

record effects_manager =
  globalEffects :: "(string \<times> (string \<times> pval) list) list"
  effects :: effects_map
  effectChains :: "string list"

text \<open>
  The sample \<open>i\<close> of the curve \<open>createDistortionCurve\<close> computes for a numeric amount.
\<close>

definition distortion_curve :: "real \<Rightarrow> nat \<Rightarrow> real" where
  "distortion_curve amount i =
     (let samples = 44100;
          deg = pi / 180;
          x = (real i * 2) / samples - 1
      in ((3 + amount * 100) * x * 20 * deg) / (pi + amount * 100 * \<bar>x\<bar>))"

text \<open>
  \<open>this.globalEffects.distortion.amount\<close>: a \<open>TypeError\<close> when there is no \<open>distortion\<close>
  settings object to read from; a missing or inherited \<open>amount\<close> computes as \<open>NaN\<close>.
\<close>

definition distortion_amount :: "(string \<times> (string \<times> pval) list) list \<Rightarrow> error + number" where
  "distortion_amount ge =
     (case obj_get ge ''distortion'' of
        Own st \<Rightarrow> (case obj_get st ''amount'' of Own v \<Rightarrow> Inr (toNumber v) | _ \<Rightarrow> Inr NaN)
      | _ \<Rightarrow> Inl TypeError)"

definition createDistortionCurve ::
  "(string \<times> (string \<times> pval) list) list \<Rightarrow> distortion_nodes \<Rightarrow> error + distortion_nodes" where
  "createDistortionCurve ge d =
     (case distortion_amount ge of
        Inl e \<Rightarrow> Inl e
      | Inr a \<Rightarrow> Inr (d\<lparr>waveshaper_amount := a\<rparr>))"

definition initial_globalEffects :: "(string \<times> (string \<times> pval) list) list" where
  "initial_globalEffects =
     [(''reverb'', [(''enabled'', PBool False), (''wet'', PNum 0.2), (''roomSize'', PNum 0.8),
                    (''damping'', PNum 0.3)]),
      (''delay'', [(''enabled'', PBool False), (''time'', PNum 0.3), (''feedback'', PNum 0.4),
                   (''wet'', PNum 0.3)]),
      (''distortion'', [(''enabled'', PBool False), (''amount'', PNum 0.1), (''tone'', PNum 0.5)]),
      (''filter'', [(''enabled'', PBool False), (''frequency'', PNum 1000),
                    (''resonance'', PNum 1), (''type'', PStr ''lowpass'')])]"

text \<open>
  The constructor with \<open>initEffects\<close>: \<open>createGlobalReverb\<close>, \<open>createGlobalDelay\<close>,
  \<open>createGlobalDistortion\<close> and \<open>createGlobalFilter\<close> with their initial values.
\<close>

definition createGlobalReverb :: reverb_nodes where
  "createGlobalReverb =
     \<lparr>reverb_inputGain = new_param 0.8, reverb_dryGain = new_param 0.8,
      reverb_wetGain = new_param 0.2, reverb_enabled = False\<rparr>"

definition createGlobalDelay :: delay_nodes where
  "createGlobalDelay =
     \<lparr>delay_delayTime = new_param 0.3, delay_feedbackGain = new_param 0.4,
      delay_wetGain = new_param 0.3, delay_dryGain = new_param (1 - 0.3),
      delay_enabled = False\<rparr>"

definition createGlobalDistortion :: distortion_nodes where
  "createGlobalDistortion =
     \<lparr>waveshaper_amount = Num 0.1, distortion_inputGain = new_param 1,
      toneFilter_frequency = new_param 2000, distortion_enabled = False\<rparr>"

definition createGlobalFilter :: filter_nodes where
  "createGlobalFilter =
     \<lparr>filter_type = ''lowpass'', filter_frequency = new_param 1000, filter_Q = new_param 1,
      filter_enabled = False\<rparr>"

definition new_EffectsManager :: effects_manager where
  "new_EffectsManager =
     \<lparr>globalEffects = initial_globalEffects,
      effects = \<lparr>fx_reverb = Some createGlobalReverb, fx_delay = Some createGlobalDelay,
                 fx_distortion = Some createGlobalDistortion, fx_filter = Some createGlobalFilter\<rparr>,
      effectChains = []\<rparr>"

text \<open>
  The cases of the \<open>switch\<close> in \<open>applyEffectParam\<close>, each on the entry of its effect, at
  context time \<open>now\<close>. \<open>paramName\<close> is \<open>None\<close> for \<open>undefined\<close>. The value is passed on as
  it is: nothing clamps it.
\<close>

definition apply_reverb :: "real \<Rightarrow> string option \<Rightarrow> pval \<Rightarrow> reverb_nodes \<Rightarrow> reverb_nodes" where
  "apply_reverb now paramName value' effect =
     (if paramName = Some ''wet''
      then effect\<lparr>reverb_wetGain :=
                    setTargetAtTime (toNumber value') now 0.01 (reverb_wetGain effect),
                  reverb_dryGain :=
                    setTargetAtTime (one_minus (toNumber value')) now 0.01 (reverb_dryGain effect)\<rparr>
      else effect)"

definition apply_delay :: "real \<Rightarrow> string option \<Rightarrow> pval \<Rightarrow> delay_nodes \<Rightarrow> delay_nodes" where
  "apply_delay now paramName value' effect =
     (if paramName = Some ''time''
      then effect\<lparr>delay_delayTime :=
                    setTargetAtTime (toNumber value') now 0.01 (delay_delayTime effect)\<rparr>
      else if paramName = Some ''feedback''
      then effect\<lparr>delay_feedbackGain :=
                    setTargetAtTime (toNumber value') now 0.01 (delay_feedbackGain effect)\<rparr>
      else if paramName = Some ''wet''
      then effect\<lparr>delay_wetGain :=
                    setTargetAtTime (toNumber value') now 0.01 (delay_wetGain effect),
                  delay_dryGain :=
                    setTargetAtTime (one_minus (toNumber value')) now 0.01 (delay_dryGain effect)\<rparr>
      else effect)"

definition apply_distortion ::
  "(string \<times> (string \<times> pval) list) list \<Rightarrow> string option \<Rightarrow> distortion_nodes
     \<Rightarrow> error + distortion_nodes" where
  "apply_distortion ge paramName effect =
     (if paramName = Some ''amount'' then createDistortionCurve ge effect else Inr effect)"

definition apply_filter :: "real \<Rightarrow> string option \<Rightarrow> pval \<Rightarrow> filter_nodes \<Rightarrow> filter_nodes" where
  "apply_filter now paramName value' effect =
     (if paramName = Some ''freq''
      then effect\<lparr>filter_frequency :=
                    setTargetAtTime (num_times (toNumber value') 2000) now 0.01
                      (filter_frequency effect)\<rparr>
      else effect)"

text \<open>
  \<open>applyEffectParam(effectName, paramName, value)\<close>: an effect name that is no key of the
  \<open>effects\<close> map returns at once; otherwise the \<open>switch\<close> selects the case of the effect.
\<close>

definition applyEffectParam ::
  "real \<Rightarrow> string \<Rightarrow> string option \<Rightarrow> pval \<Rightarrow> effects_manager \<Rightarrow> effects_manager \<times> error option" where
  "applyEffectParam now effectName paramName value' m =
     (let fx = effects m in
      if effectName = ''reverb'' then
        (case fx_reverb fx of
           None \<Rightarrow> (m, None)
         | Some effect \<Rightarrow>
             (m\<lparr>effects := fx\<lparr>fx_reverb := Some (apply_reverb now paramName value' effect)\<rparr>\<rparr>,
              None))
      else if effectName = ''delay'' then
        (case fx_delay fx of
           None \<Rightarrow> (m, None)
         | Some effect \<Rightarrow>
             (m\<lparr>effects := fx\<lparr>fx_delay := Some (apply_delay now paramName value' effect)\<rparr>\<rparr>,
              None))
      else if effectName = ''distortion'' then
        (case fx_distortion fx of
           None \<Rightarrow> (m, None)
         | Some effect \<Rightarrow>
             (case apply_distortion (globalEffects m) paramName effect of
                Inl e \<Rightarrow> (m, Some e)
              | Inr effect' \<Rightarrow> (m\<lparr>effects := fx\<lparr>fx_distortion := Some effect'\<rparr>\<rparr>, None)))
      else if effectName = ''filter'' then
        (case fx_filter fx of
           None \<Rightarrow> (m, None)
         | Some effect \<Rightarrow>
             (m\<lparr>effects := fx\<lparr>fx_filter := Some (apply_filter now paramName value' effect)\<rparr>\<rparr>,
              None))
      else (m, None))"

text \<open>\<open>s.split('-')\<close>, for any separator character.\<close>

fun split_on :: "char \<Rightarrow> string \<Rightarrow> string list" where
  "split_on c [] = [ [] ]"
| "split_on c (x # xs) =
     (if x = c then [] # split_on c xs
      else (case split_on c xs of w # ws \<Rightarrow> (x # w) # ws | [] \<Rightarrow> [ [x] ]))"

text \<open>
  \<open>obj[k] = v\<close> for a primitive \<open>v\<close>: the key \<open>undefined\<close> is the string of that name, and
  an assignment to \<open>__proto__\<close> of a primitive is ignored.
\<close>

definition prop_assign :: "(string \<times> 'a) list \<Rightarrow> string option \<Rightarrow> 'a \<Rightarrow> (string \<times> 'a) list" where
  "prop_assign obj k v =
     (let key = (case k of None \<Rightarrow> ''undefined'' | Some k' \<Rightarrow> k')
      in if key = ''__proto__'' then obj else obj_set obj key v)"

text \<open>
  \<open>updateEffectParam('effect-param', value)\<close>. For an effect name that names an inherited
  property the guard passes, the assignment lands on that inherited function or object,
  and \<open>applyEffectParam\<close> finds no effect: the manager is unchanged.
\<close>

definition updateEffectParam ::
  "real \<Rightarrow> string \<Rightarrow> pval \<Rightarrow> effects_manager \<Rightarrow> effects_manager \<times> error option" where
  "updateEffectParam now param value' m =
     (case split_on CHR ''-'' param of
        [] \<Rightarrow> (m, None)
      | effectName # rest \<Rightarrow>
          (let paramName = (case rest of [] \<Rightarrow> None | p # _ \<Rightarrow> Some p)
           in case obj_get (globalEffects m) effectName of
                Undefined \<Rightarrow> (m, None)
              | Inherited \<Rightarrow> applyEffectParam now effectName paramName value' m
              | Own st \<Rightarrow>
                  applyEffectParam now effectName paramName value'
                    (m\<lparr>globalEffects :=
                         obj_set (globalEffects m) effectName (prop_assign st paramName value')\<rparr>)))"

text \<open>
  The \<open>forEach\<close> over \<open>Object.keys(params)\<close> of \<open>setEffectParams\<close>: each parameter is stored
  and applied; an exception ends the loop.
\<close>

fun setEffectParams_loop ::
  "real \<Rightarrow> string \<Rightarrow> (string \<times> pval) list \<Rightarrow> string list \<Rightarrow> effects_manager
     \<Rightarrow> effects_manager \<times> error option" where
  "setEffectParams_loop now effectName params [] m = (m, None)"
| "setEffectParams_loop now effectName params (param # rest) m =
     (case map_of params param of
        None \<Rightarrow> setEffectParams_loop now effectName params rest m
      | Some v \<Rightarrow>
          (case obj_get (globalEffects m) effectName of
             Own st \<Rightarrow>
               (case applyEffectParam now effectName (Some param) v
                       (m\<lparr>globalEffects :=
                            obj_set (globalEffects m) effectName (prop_assign st (Some param) v)\<rparr>) of
                  (m', Some e) \<Rightarrow> (m', Some e)
                | (m', None) \<Rightarrow> setEffectParams_loop now effectName params rest m')
           | _ \<Rightarrow> setEffectParams_loop now effectName params rest m))"

definition setEffectParams ::
  "real \<Rightarrow> string \<Rightarrow> (string \<times> pval) list \<Rightarrow> effects_manager \<Rightarrow> effects_manager \<times> error option" where
  "setEffectParams now effectName params m =
     (case obj_get (globalEffects m) effectName of
        Undefined \<Rightarrow> (m, None)
      | _ \<Rightarrow> setEffectParams_loop now effectName params (map fst params) m)"

text \<open>
  The payload of \<open>loadEffectsData\<close>: the settings objects and what \<open>new Map(...)\<close> is given
  for the effect chains (entries with a track id, elements that are no entries, or a
  value that cannot be iterated).
\<close>

datatype chain_entry = ChainEntry string | NotAChainEntry

datatype chains_field = ChainEntries "chain_entry list" | ChainsNotIterable

record effects_data =
  globalEffects_data :: "(string \<times> (string \<times> pval) list) list option"
  effectChains_data :: "chains_field option"

fun Map_chains :: "string list \<Rightarrow> chain_entry list \<Rightarrow> error + string list" where
  "Map_chains acc [] = Inr acc"
| "Map_chains acc (NotAChainEntry # es) = Inl TypeError"
| "Map_chains acc (ChainEntry k # es) =
     Map_chains (if List.member acc k then acc else acc @ [k]) es"

fun new_Map_chains :: "chains_field \<Rightarrow> error + string list" where
  "new_Map_chains ChainsNotIterable = Inl TypeError"
| "new_Map_chains (ChainEntries es) = Map_chains [] es"

definition getEffectsData :: "effects_manager \<Rightarrow> effects_data" where
  "getEffectsData m =
     \<lparr>globalEffects_data = Some (globalEffects m),
      effectChains_data = Some (ChainEntries (map ChainEntry (effectChains m)))\<rparr>"

text \<open>
  The inner \<open>forEach\<close> of \<open>loadEffectsData\<close>: every parameter of one settings object other
  than \<open>enabled\<close> is applied with the value \<open>effect[param]\<close>.
\<close>

fun reapply_params ::
  "real \<Rightarrow> string \<Rightarrow> (string \<times> pval) list \<Rightarrow> string list \<Rightarrow> effects_manager
     \<Rightarrow> effects_manager \<times> error option" where
  "reapply_params now effectName effect [] m = (m, None)"
| "reapply_params now effectName effect (param # rest) m =
     (if param \<noteq> ''enabled''
      then (case map_of effect param of
              None \<Rightarrow> reapply_params now effectName effect rest m
            | Some v \<Rightarrow>
                (case applyEffectParam now effectName (Some param) v m of
                   (m', Some e) \<Rightarrow> (m', Some e)
                 | (m', None) \<Rightarrow> reapply_params now effectName effect rest m'))
      else reapply_params now effectName effect rest m)"

text \<open>The outer \<open>forEach\<close>, over \<open>Object.keys(this.globalEffects)\<close>.\<close>

fun reapply_effects ::
  "real \<Rightarrow> string list \<Rightarrow> effects_manager \<Rightarrow> effects_manager \<times> error option" where
  "reapply_effects now [] m = (m, None)"
| "reapply_effects now (effectName # rest) m =
     (case map_of (globalEffects m) effectName of
        None \<Rightarrow> reapply_effects now rest m
      | Some effect \<Rightarrow>
          (case reapply_params now effectName effect (map fst effect) m of
             (m', Some e) \<Rightarrow> (m', Some e)
           | (m', None) \<Rightarrow> reapply_effects now rest m'))"

text \<open>
  \<open>loadEffectsData\<close>: the settings are replaced, the chain map is rebuilt (which can
  raise), then every parameter is applied again.
\<close>

definition loadEffectsData ::
  "real \<Rightarrow> effects_data \<Rightarrow> effects_manager \<Rightarrow> effects_manager \<times> error option" where
  "loadEffectsData now data' m =
     (let m1 = (case globalEffects_data data' of
                  Some ge \<Rightarrow> m\<lparr>globalEffects := ge\<rparr>
                | None \<Rightarrow> m);
          reapply = (\<lambda>m2. reapply_effects now (map fst (globalEffects m2)) m2)
      in case effectChains_data data' of
           None \<Rightarrow> reapply m1
         | Some cf \<Rightarrow>
             (case new_Map_chains cf of
                Inl e \<Rightarrow> (m1, Some e)
              | Inr ids \<Rightarrow> reapply (m1\<lparr>effectChains := ids\<rparr>)))"

text \<open>
  The feedback coefficient of the delay: the value the gain of the feedback edge settles
  at, while the delay exists.
\<close>

definition feedback_coefficient :: "effects_manager \<Rightarrow> number option" where
  "feedback_coefficient m =
     map_option (\<lambda>d. settles_at (delay_feedbackGain d)) (fx_delay (effects m))"

text \<open>The feedback loop has a gain below one.\<close>

definition feedback_below_one :: "effects_manager \<Rightarrow> bool" where
  "feedback_below_one m =
     (case feedback_coefficient m of Some (Num f) \<Rightarrow> f < 1 | _ \<Rightarrow> False)"

section \<open>MusicFlowApp\<close>

record settings =
  bpm_settings :: "real option"
  masterVolume_settings :: "real option"

text \<open>A saved project, as \<open>saveProject\<close> writes it; a property may be missing.\<close>

record project =
  id_project :: string
  name_project :: string
  sequencerData :: "sequencer_data option"
  effectsData :: "effects_data option"
  settings_project :: "settings option"

text \<open>
  What \<open>showSuccess\<close> and \<open>showError\<close> tell the user: \<open>Success n\<close> stands for the message
  that the project named \<open>n\<close> was loaded, \<open>Failure\<close> carries the text shown.
\<close>

datatype message = Success string | Failure string

text \<open>
  The application object as far as \<open>loadProject\<close> goes. Its audio engine is the one the
  sequencer holds.
\<close>

record app =
  sequencer_app :: sequencer
  effectsManager :: effects_manager
  currentProject :: "project option"
  projects :: "project list"
  notification :: "message option"

text \<open>
  The body of the \<open>try\<close> block of \<open>loadProject\<close>, in the page the application runs in: the
  sequencer data, the effects data and the settings are loaded in this order, then the
  project becomes the current one. An exception ends the block where it is raised.
\<close>

definition loadProject_try :: "page \<Rightarrow> project \<Rightarrow> app \<Rightarrow> app \<times> error option" where
  "loadProject_try page' project' a =
     (let r1 = (case sequencerData project' of
                  None \<Rightarrow> (a, None)
                | Some d \<Rightarrow>
                    (a\<lparr>sequencer_app := loadSequencerData d (sequencer_app a)\<rparr>,
                     loadSequencerData_error page' d (sequencer_app a)))
      in case snd r1 of
           Some e \<Rightarrow> r1
         | None \<Rightarrow>
             (let a1 = fst r1;
                  r2 = (case effectsData project' of
                          None \<Rightarrow> (a1, None)
                        | Some d \<Rightarrow>
                            (let r = loadEffectsData (ctxTime (audioEngine (sequencer_app a1))) d
                                       (effectsManager a1)
                             in (a1\<lparr>effectsManager := fst r\<rparr>, snd r)))
              in case snd r2 of
                   Some e \<Rightarrow> r2
                 | None \<Rightarrow>
                     (let a2 = fst r2;
                          a3 = (case settings_project project' of
                                  None \<Rightarrow> a2
                                | Some st \<Rightarrow>
                                    (let b1 = (case bpm_settings st of
                                                 Some b \<Rightarrow>
                                                   if b \<noteq> 0
                                                   then a2\<lparr>sequencer_app := setBPM b (sequencer_app a2)\<rparr>
                                                   else a2
                                               | None \<Rightarrow> a2)
                                     in case masterVolume_settings st of
                                          Some v \<Rightarrow>
                                            if v \<noteq> 0
                                            then b1\<lparr>sequencer_app := (sequencer_app b1)
                                                   \<lparr>audioEngine := setMasterVolume v
                                                      (audioEngine (sequencer_app b1))\<rparr>\<rparr>
                                            else b1
                                        | None \<Rightarrow> b1))
                      in (a3\<lparr>currentProject := Some project',
                             notification := Some (Success (name_project project'))\<rparr>, None))))"

text \<open>
  \<open>loadProject\<close>: an unknown id returns at once; an exception of the \<open>try\<close> block is caught
  and reported with \<open>showError\<close>, and what the block had done by then stays done.
\<close>

definition loadProject :: "page \<Rightarrow> string \<Rightarrow> app \<Rightarrow> app" where
  "loadProject page' projectId a =
     (case find (\<lambda>p. id_project p = projectId) (projects a) of
        None \<Rightarrow> a
      | Some project' \<Rightarrow>
          (case loadProject_try page' project' a of
             (a', None) \<Rightarrow> a'
           | (a', Some e) \<Rightarrow>
               a'\<lparr>notification := Some (Failure ''Failed to load project. Please try again.'')\<rparr>))"

text \<open>
  A payload that \<open>new Map\<close> rejects after the tempo and the tracks have been read: a tempo
  of 90, an empty track list, a number where the pattern entries should be, and the name
  of another active pattern.
\<close>

definition malformed_data :: sequencer_data where
  "malformed_data =
     \<lparr>bpm_data = Some 90, stepsPerBeat_data = Some 4, totalSteps_data = Some 16,
      tracks_data = Some [], patterns_data = Some NotIterable,
      activePattern_data = Some ''verse''\<rparr>"

definition malformed_project :: project where
  "malformed_project =
     \<lparr>id_project = ''p1'', name_project = ''Song'', sequencerData = Some malformed_data,
      effectsData = None, settings_project = None\<rparr>"

text \<open>
  A payload that loads all four properties and then cannot be rendered: its only track has
  the id \<open>constructor\<close>, which the \<open>tracks\<close> dictionary of its pattern inherits.
\<close>

definition unrenderable_data :: sequencer_data where
  "unrenderable_data =
     \<lparr>bpm_data = Some 90, stepsPerBeat_data = Some 4, totalSteps_data = Some 16,
      tracks_data = Some [\<lparr>id_track = ''constructor'', name_track = ''Lead'',
                           instrument_track = Synth, volume = 0.5, muted = False,
                           solo = False, pattern_track = []\<rparr>],
      patterns_data = Some (Entries [Entry ''verse''
                         \<lparr>id_pattern = ''verse'', name_pattern = ''Verse'',
                          tracks_pattern = Some []\<rparr>]),
      activePattern_data = Some ''verse''\<rparr>"

definition unrenderable_project :: project where
  "unrenderable_project =
     \<lparr>id_project = ''p2'', name_project = ''Lead'', sequencerData = Some unrenderable_data,
      effectsData = None, settings_project = None\<rparr>"

text \<open>
  A page with both containers. Its \<open>querySelector\<close> accepts the selector texts with exactly
  two double quotes, as a browser does for the track selector of an id without quotes,
  backslashes and line breaks, and as it refuses that of an id with one quote.
\<close>

definition studio_page :: page where
  "studio_page =
     \<lparr>tracksContainer = True, mixerChannels = True,
      selector_ok = (\<lambda>sel. length (filter (\<lambda>c. c = CHR 0x22) sel) = 2)\<rparr>"

definition initial_app :: app where
  "initial_app =
     \<lparr>sequencer_app = initial_sequencer, effectsManager = new_EffectsManager,
      currentProject = None, projects = [malformed_project, unrenderable_project],
      notification = None\<rparr>"

text \<open>
  Saved sequencer data whose pattern gives the first track twenty steps, and the
  constructed sequencer after loading it.
\<close>

definition long_data :: sequencer_data where
  "long_data =
     \<lparr>bpm_data = None, stepsPerBeat_data = None, totalSteps_data = None, tracks_data = None,
      patterns_data = Some (Entries [Entry ''default-pattern''
                         \<lparr>id_pattern = ''default-pattern'', name_pattern = ''Default Pattern'',
                          tracks_pattern = Some [(''track-1'', replicate 20 empty_step)]\<rparr>]),
      activePattern_data = None\<rparr>"

definition long_sequencer :: sequencer where
  "long_sequencer = loadSequencerData long_data initial_sequencer"

text \<open>
  Saved effects data whose delay has a feedback of \<open>0.7\<close>, with no effect chains.
\<close>

definition loud_effects :: effects_data where
  "loud_effects =
     \<lparr>globalEffects_data = Some [(''delay'', [(''enabled'', PBool True), (''feedback'', PNum 0.7)])],
      effectChains_data = Some (ChainEntries [])\<rparr>"

text \<open>
  The step count of the data model: sixteen steps in every array of every stored pattern,
  and in every array \<open>createEmptyPattern\<close> makes.
\<close>

definition sixteen_steps :: "sequencer \<Rightarrow> bool" where
  "sixteen_steps s \<longleftrightarrow>
     totalSteps s = 16 \<and>
     list_all (\<lambda>kp. case tracks_pattern (snd kp) of
                        None \<Rightarrow> True
                      | Some trs \<Rightarrow> list_all (\<lambda>ts. length (snd ts) = 16) trs)
       (patterns s)"

section \<open>Properties of the sequencer\<close>

subsection \<open>Timing\<close>

lemma scheduler_frame_refl: "scheduler_frame s s"
  by (simp add: scheduler_frame_def)

lemma scheduler_frame_trans:
  "scheduler_frame s s' \<Longrightarrow> scheduler_frame s' s'' \<Longrightarrow> scheduler_frame s s''"
  by (cases s, cases s', cases s'') (simp add: scheduler_frame_def)

lemma advance_frame: "scheduler_frame s (advance s)"
  by (simp add: scheduler_frame_def advance_def playStep_def Let_def)

lemma advance_nextStepTime: "nextStepTime (advance s) = nextStepTime s + stepDuration s"
  by (simp add: advance_def playStep_def Let_def)

lemma advance_stepDuration: "stepDuration (advance s) = stepDuration s"
  by (simp add: advance_def playStep_def Let_def)

lemma scheduleLoop_bounded:
  "0 < stepDuration s \<Longrightarrow> ct + 0.1 - nextStepTime s < real k * stepDuration s \<Longrightarrow>
   \<exists>s'. scheduleLoop ct s = Some s' \<and> scheduler_frame s s' \<and> nextStepTime s \<le> nextStepTime s'
        \<and> ct + 0.1 < nextStepTime s'"
proof (induction k arbitrary: s)
  case 0
  then have "\<not> nextStepTime s \<le> ct + 0.1" by simp
  then show ?case
    by (subst scheduleLoop.simps) (simp add: scheduler_frame_refl)
next
  case (Suc k)
  show ?case
  proof (cases "nextStepTime s \<le> ct + 0.1")
    case False
    then show ?thesis
      by (subst scheduleLoop.simps) (simp add: scheduler_frame_refl)
  next
    case True
    have d: "0 < stepDuration (advance s)"
      using Suc.prems(1) by (simp add: advance_stepDuration)
    have "ct + 0.1 - nextStepTime (advance s) < real k * stepDuration (advance s)"
      using Suc.prems(2) by (simp add: advance_nextStepTime advance_stepDuration algebra_simps)
    from Suc.IH [OF d this] obtain s' where s':
      "scheduleLoop ct (advance s) = Some s'" "scheduler_frame (advance s) s'"
      "nextStepTime (advance s) \<le> nextStepTime s'" "ct + 0.1 < nextStepTime s'"
      by blast
    have "scheduleLoop ct s = Some s'"
      using True s'(1) by (subst scheduleLoop.simps) simp
    moreover have "scheduler_frame s s'"
      using advance_frame s'(2) by (rule scheduler_frame_trans)
    moreover have "nextStepTime s \<le> nextStepTime s'"
      using s'(3) Suc.prems(1) by (simp add: advance_nextStepTime)
    ultimately show ?thesis using s'(4) by blast
  qed
qed

lemma scheduleLoop_returns:
  assumes "0 < stepDuration s"
  shows "\<exists>s'. scheduleLoop ct s = Some s' \<and> scheduler_frame s s' \<and> nextStepTime s \<le> nextStepTime s'
        \<and> ct + 0.1 < nextStepTime s'"
proof -
  obtain k :: nat where "(ct + 0.1 - nextStepTime s) / stepDuration s < real k"
    using reals_Archimedean2 by blast
  then have "ct + 0.1 - nextStepTime s < real k * stepDuration s"
    using assms by (simp add: pos_divide_less_eq)
  from scheduleLoop_bounded [OF assms this] show ?thesis .
qed

lemma timing_ok_positive: "timing_ok s \<Longrightarrow> 0 < stepDuration s"
  by (simp add: timing_ok_def)

lemma timing_ok_frame: "scheduler_frame s s' \<Longrightarrow> timing_ok s \<Longrightarrow> timing_ok s'"
  by (cases s, cases s') (simp add: scheduler_frame_def timing_ok_def)

lemma timing_ok_new: "timing_ok (new_Sequencer e m)"
  by (simp add: timing_ok_def new_Sequencer_def createDefaultPattern_def createDefaultTracks_def
      Let_def)

lemma timing_ok_setBPM: "timing_ok s \<Longrightarrow> timing_ok (setBPM b s)"
  by (simp add: timing_ok_def setBPM_def Let_def)

lemma write_step_timing [simp]:
  "bpm (write_step t i f s) = bpm s" "stepsPerBeat (write_step t i f s) = stepsPerBeat s"
  "totalSteps (write_step t i f s) = totalSteps s" "stepDuration (write_step t i f s) = stepDuration s"
  "nextStepTime (write_step t i f s) = nextStepTime s"
  by (simp_all add: write_step_def modify_step_def split: steps_ref.splits option.splits)

lemma timing_ok_load: "timing_ok s \<Longrightarrow> timing_ok (loadSequencerData d s)"
  by (auto simp: loadSequencerData_def Let_def timing_ok_def setBPM_def
      split: option.splits sum.splits)

lemma exec_timing_ok:
  assumes "timing_ok s" "exec op s = Some s'"
  shows "timing_ok s'"
proof (cases op)
  case TimerTick
  show ?thesis
  proof (cases "schedulerInterval s")
    case True
    with TimerTick assms(2) have "scheduleLoop (getCurrentTime (audioEngine s)) s = Some s'"
      by (simp add: scheduleSteps_def)
    moreover from scheduleLoop_returns [OF timing_ok_positive [OF assms(1)]]
    obtain s'' where "scheduleLoop (getCurrentTime (audioEngine s)) s = Some s''"
      "scheduler_frame s s''" by blast
    ultimately have "scheduler_frame s s'" by simp
    then show ?thesis using assms(1) by (rule timing_ok_frame)
  next
    case False
    with TimerTick assms show ?thesis by simp
  qed
next
  case (LoadSequencerData d)
  with assms show ?thesis using timing_ok_load by auto
next
  case (SetBPM b)
  with assms show ?thesis using timing_ok_setBPM by auto
qed (use assms in \<open>auto simp: timing_ok_def setTrackVolume_def toggleTrackMute_def
      toggleTrackSolo_def toggleStep_def clearStep_def promptForNote_def promptForVelocity_def
      play_def pause_def stop_def toggleRecord_def startScheduler_def stopScheduler_def Let_def
      split: option.splits\<close>)

lemma reachable_timing_ok: "reachable s \<Longrightarrow> timing_ok s"
  by (induction rule: reachable.induct) (auto intro: timing_ok_new exec_timing_ok)

lemma exec_nextStepTime:
  assumes "timing_ok s" "isPlaying s"
  shows "\<exists>s'. exec op s = Some s' \<and> nextStepTime s \<le> nextStepTime s'"
proof (cases op)
  case TimerTick
  from scheduleLoop_returns [OF timing_ok_positive [OF assms(1)]]
  obtain s' where "scheduleLoop (getCurrentTime (audioEngine s)) s = Some s'"
    "nextStepTime s \<le> nextStepTime s'" by blast
  with TimerTick show ?thesis by (auto simp: scheduleSteps_def)
next
  case (LoadSequencerData d)
  then show ?thesis
    by (auto simp: loadSequencerData_def Let_def setBPM_def split: option.splits sum.splits)
qed (use assms in \<open>auto simp: setBPM_def setTrackVolume_def toggleTrackMute_def
      toggleTrackSolo_def toggleStep_def clearStep_def promptForNote_def promptForVelocity_def
      play_def pause_def stop_def toggleRecord_def startScheduler_def stopScheduler_def Let_def
      split: option.splits\<close>)

lemma reachable_initial_sequencer: "reachable initial_sequencer"
  unfolding initial_sequencer_def by (rule reachable.initial) simp

text \<open>
  Claim C7. For every input \<open>b\<close>, \<open>setBPM\<close> stores the clamp of \<open>b\<close> into \<open>[60, 200]\<close> and
  sets \<open>stepDuration\<close> to \<open>60 / (clamped * stepsPerBeat)\<close>, where \<open>stepsPerBeat\<close> is \<open>4\<close> in
  every state a sequencer reaches; after \<open>setBPM(150)\<close> the step lasts \<open>0.1\<close> seconds.
\<close>

theorem setBPM_clamps:
  assumes "reachable s"
  shows "bpm (setBPM b s) = max 60 (min 200 b)
       \<and> stepsPerBeat (setBPM b s) = 4
       \<and> stepDuration (setBPM b s) = 60 / (max 60 (min 200 b) * 4)
       \<and> stepDuration (setBPM 150 s) = 0.1"
  using reachable_timing_ok [OF assms] by (simp add: setBPM_def timing_ok_def Let_def)

theorem setBPM_clamps_witness:
  "bpm (setBPM 300 initial_sequencer) = 200
   \<and> stepDuration (setBPM 300 initial_sequencer) = 3 / 40
   \<and> stepDuration (setBPM 150 initial_sequencer) = 1 / 10"
  using setBPM_clamps [OF reachable_initial_sequencer, of 300] by simp

text \<open>
  Claim C4. While the sequencer is playing, no operation decreases \<open>nextStepTime\<close>: in
  every reachable state with \<open>isPlaying\<close> set the step duration is positive, and every
  operation (the timer callback \<open>scheduleSteps\<close> and \<open>setBPM\<close> among them) returns a state
  whose \<open>nextStepTime\<close> is at least the one before.
\<close>

theorem nextStepTime_monotone:
  assumes "reachable s" and "isPlaying s"
  shows "0 < stepDuration s
       \<and> (\<exists>s'. exec op s = Some s' \<and> nextStepTime s \<le> nextStepTime s')"
  using exec_nextStepTime [OF reachable_timing_ok [OF assms(1)] assms(2)]
    timing_ok_positive [OF reachable_timing_ok [OF assms(1)]] by simp

lemma reachable_play_initial: "reachable (play initial_sequencer)"
  by (rule reachable.step [OF reachable_initial_sequencer, of Play]) simp

lemma isPlaying_play: "isPlaying (play s)"
  by (simp add: play_def startScheduler_def Let_def)

theorem nextStepTime_monotone_witness:
  "\<exists>s'. exec TimerTick (play initial_sequencer) = Some s'
        \<and> nextStepTime (play initial_sequencer) \<le> nextStepTime s'"
  using nextStepTime_monotone [OF reachable_play_initial isPlaying_play, of TimerTick] by simp

subsection \<open>Pattern editing\<close>

lemma update_first_twice:
  assumes "\<And>x. P x \<Longrightarrow> P (f x)"
  shows "update_first P g (update_first P f xs) = update_first P (g \<circ> f) xs"
  using assms by (induction xs) auto

lemma update_first_id:
  assumes "\<And>x. x \<in> set xs \<Longrightarrow> P x \<Longrightarrow> f x = x"
  shows "update_first P f xs = xs"
  using assms by (induction xs) auto

lemma map_of_update_first:
  "map_of (update_first (\<lambda>(k', v). k' = k) (\<lambda>(k', v). (k', h v)) xs) k' =
     (if k' = k then map_option h (map_of xs k) else map_of xs k')"
  by (induction xs) auto

lemma getPatternForTrack_modify_step:
  "getPatternForTrack t s = Stored steps \<Longrightarrow>
   getPatternForTrack t (modify_step t i f s) = Stored (steps[i := f (steps ! i)])"
  by (auto simp: getPatternForTrack_def modify_step_def map_of_update_first obj_get_def
      split: option.splits if_splits)

lemma list_update_twice_involution:
  assumes "\<And>x. f (f x) = x"
  shows "xs[i := f (xs[i := f (xs ! i)] ! i)] = xs"
proof (cases "i < length xs")
  case True
  then show ?thesis using assms by simp
next
  case False
  then show ?thesis by (simp add: list_update_beyond)
qed

lemma modify_step_twice:
  assumes "\<And>x. f (f x) = x"
  shows "modify_step t i f (modify_step t i f s) = s"
proof (cases "activePattern s")
  case None
  then show ?thesis by (simp add: modify_step_def)
next
  case (Some k)
  let ?U = "update_first (\<lambda>(t', steps). t' = t) (\<lambda>(t', steps). (t', steps[i := f (steps ! i)]))"
  let ?F = "\<lambda>(k', p). (k', p\<lparr>tracks_pattern := map_option ?U (tracks_pattern p)\<rparr>)"
  have U: "?U (?U trs) = trs" for trs :: "(string \<times> step list) list"
  proof -
    have "?U (?U trs) =
        update_first (\<lambda>(t', steps). t' = t)
          ((\<lambda>(t', steps). (t', steps[i := f (steps ! i)])) \<circ> (\<lambda>(t', steps). (t', steps[i := f (steps ! i)]))) trs"
      by (rule update_first_twice) auto
    also have "\<dots> = trs"
      by (rule update_first_id) (auto simp: list_update_twice_involution assms)
    finally show ?thesis .
  qed
  have "update_first (\<lambda>(k', p). k' = k) ?F (update_first (\<lambda>(k', p). k' = k) ?F (patterns s))
      = update_first (\<lambda>(k', p). k' = k) (?F \<circ> ?F) (patterns s)"
    by (rule update_first_twice) auto
  also have "\<dots> = patterns s"
  proof (rule update_first_id)
    fix x :: "string \<times> pattern_obj"
    obtain k' p where x: "x = (k', p)" by (cases x)
    show "(?F \<circ> ?F) x = x"
      unfolding x by (cases "tracks_pattern p") (simp_all add: U)
  qed
  finally show ?thesis using Some by (simp add: modify_step_def)
qed

lemma write_step_twice:
  assumes "\<And>x. f (f x) = x"
  shows "write_step t i f (write_step t i f s) = s"
proof (cases "getPatternForTrack t s")
  case (Stored steps)
  show ?thesis
  proof (cases "arr_get steps i")
    case None
    with Stored show ?thesis by (simp add: write_step_def)
  next
    case (Some st)
    then have "arr_get (steps[nat i := f (steps ! nat i)]) i \<noteq> None"
      by (auto simp: arr_get_def split: if_splits)
    then show ?thesis
      using Stored Some getPatternForTrack_modify_step [OF Stored, of "nat i" f]
        modify_step_twice [of f t "nat i" s, OF assms]
      by (auto simp: write_step_def)
  qed
next
  case (Fresh steps)
  then show ?thesis by (simp add: write_step_def)
next
  case Foreign
  then show ?thesis by (simp add: write_step_def)
qed

lemma toggleStep_twice_state: "toggleStep t i (toggleStep t i s) = s"
  unfolding toggleStep_def by (rule write_step_twice) simp

text \<open>
  Claim C8. For every track id and step index, \<open>toggleStep\<close> applied twice in succession
  returns the addressed step's \<open>active\<close> flag to its original value. (The two calls
  restore the whole sequencer, see \<open>toggleStep_twice_state\<close>.)
\<close>

theorem toggleStep_twice:
  "stepActive trackId stepIndex (toggleStep trackId stepIndex (toggleStep trackId stepIndex s))
     = stepActive trackId stepIndex s"
proof -
  have "toggleStep trackId stepIndex (toggleStep trackId stepIndex s) = s"
    unfolding toggleStep_def by (rule write_step_twice) simp
  then show ?thesis by simp
qed

lemma initial_sequencer_store:
  "activePattern initial_sequencer = Some ''default-pattern''"
  "patterns initial_sequencer =
     [(''default-pattern'',
       \<lparr>id_pattern = ''default-pattern'', name_pattern = ''Default Pattern'',
        tracks_pattern = Some [(''track-1'', replicate 16 empty_step),
                               (''track-2'', replicate 16 empty_step),
                               (''track-3'', replicate 16 empty_step),
                               (''track-4'', replicate 16 empty_step)]\<rparr>)]"
  "totalSteps initial_sequencer = 16"
  by (simp_all add: initial_sequencer_def new_Sequencer_def createDefaultPattern_def
      createDefaultTracks_def createEmptyPattern_def empty_step_def Let_def)

lemma initial_getPatternForTrack:
  "getPatternForTrack ''track-1'' initial_sequencer = Stored (replicate 16 empty_step)"
  "getPatternForTrack ''track-9'' initial_sequencer = Fresh (replicate 16 empty_step)"
  "getPatternForTrack ''constructor'' initial_sequencer = Foreign"
  by (simp_all add: getPatternForTrack_def initial_sequencer_store obj_get_def proto_keys_def
      createEmptyPattern_def empty_step_def)

lemma stepActive_toggle_stored:
  assumes "getPatternForTrack t s = Stored steps" "arr_get steps i = Some st"
  shows "stepActive t i (toggleStep t i s) = Some (\<not> active st)"
  using assms getPatternForTrack_modify_step [OF assms(1), of "nat i" "\<lambda>st. st\<lparr>active := \<not> active st\<rparr>"]
  by (auto simp: stepActive_def toggleStep_def write_step_def arr_get_def split: if_splits)

text \<open>
  On the constructed sequencer, step 3 of the first track is inactive, active after one
  toggle and inactive again after the second.
\<close>

theorem toggleStep_twice_witness:
  "stepActive ''track-1'' 3 initial_sequencer = Some False
   \<and> stepActive ''track-1'' 3 (toggleStep ''track-1'' 3 initial_sequencer) = Some True
   \<and> stepActive ''track-1'' 3
        (toggleStep ''track-1'' 3 (toggleStep ''track-1'' 3 initial_sequencer)) = Some False"
proof -
  have a: "stepActive ''track-1'' 3 initial_sequencer = Some False"
    by (simp add: stepActive_def initial_getPatternForTrack arr_get_def empty_step_def)
  have b: "stepActive ''track-1'' 3 (toggleStep ''track-1'' 3 initial_sequencer) = Some True"
    using stepActive_toggle_stored [OF initial_getPatternForTrack(1), of 3 empty_step]
    by (simp add: arr_get_def empty_step_def)
  show ?thesis
    using a b toggleStep_twice [of "''track-1''" 3 initial_sequencer] by simp
qed

lemma long_sequencer_store:
  "getPatternForTrack ''track-1'' long_sequencer = Stored (replicate 20 empty_step)"
  by (simp add: long_sequencer_def loadSequencerData_def long_data_def Let_def
      getPatternForTrack_def initial_sequencer_store obj_get_def)

lemma reachable_long_sequencer: "reachable long_sequencer"
  unfolding long_sequencer_def
  by (rule reachable.step [OF reachable_initial_sequencer, of "LoadSequencerData long_data"])
    simp

lemma createTrackElements_error_ids:
  "createTrackElements_error s ts
     = (if list_all (\<lambda>t. getPatternForTrack t s \<noteq> Foreign) (map id_track ts)
        then None else Some TypeError)"
  by (induction ts) (auto simp: createPatternSteps_error_def split: steps_ref.splits)

lemma long_data_loads: "loadSequencerData_error studio_page long_data initial_sequencer = None"
proof -
  have p: "patterns_error long_data = None"
    by (simp add: patterns_error_def long_data_def)
  have t: "map id_track (tracks long_sequencer) = [''track-1'', ''track-2'', ''track-3'', ''track-4'']"
    by (simp add: long_sequencer_def loadSequencerData_def long_data_def
        initial_sequencer_def new_Sequencer_def createDefaultPattern_def
        createDefaultTracks_def Let_def)
  have g: "getPatternForTrack t long_sequencer \<noteq> Foreign"
    if "t \<in> {''track-1'', ''track-2'', ''track-3'', ''track-4''}" for t
    using that
    by (auto simp: long_sequencer_def loadSequencerData_def long_data_def Let_def
        getPatternForTrack_def initial_sequencer_store obj_get_def proto_keys_def)
  have "renderTracks_error studio_page long_sequencer = None"
    by (simp add: renderTracks_error_def createTrackElements_error_ids t g)
  then show ?thesis
    by (simp add: loadSequencerData_error_def p renderMixer_error_def long_sequencer_def)
qed

text \<open>
  Claim C9 as stated fails: after loading saved data whose first track has twenty steps,
  which raises nothing and gives a state the sequencer reaches, step 16 is inactive, and
  \<open>toggleStep\<close> with the index \<open>16\<close>, outside \<open>[0, 15]\<close>, switches it on.
\<close>

theorem toggleStep_outside_counterexample:
  "loadSequencerData_error studio_page long_data initial_sequencer = None
   \<and> long_sequencer = loadSequencerData long_data initial_sequencer
   \<and> reachable long_sequencer
   \<and> stepActive ''track-1'' 16 long_sequencer = Some False
   \<and> stepActive ''track-1'' 16 (toggleStep ''track-1'' 16 long_sequencer) = Some True
   \<and> toggleStep ''track-1'' 16 long_sequencer \<noteq> long_sequencer"
proof -
  have a: "stepActive ''track-1'' 16 long_sequencer = Some False"
    by (simp add: stepActive_def long_sequencer_store arr_get_def empty_step_def)
  have b: "stepActive ''track-1'' 16 (toggleStep ''track-1'' 16 long_sequencer) = Some True"
    using stepActive_toggle_stored [OF long_sequencer_store, of 16 empty_step]
    by (simp add: arr_get_def empty_step_def)
  from a b have "toggleStep ''track-1'' 16 long_sequencer \<noteq> long_sequencer"
    by auto
  with a b reachable_long_sequencer long_data_loads show ?thesis
    by (simp add: long_sequencer_def [symmetric])
qed

lemma no_entry_length:
  assumes "reachable s" "\<not> has_entry trackId s"
  shows "length (steps_of (getPatternForTrack trackId s)) \<le> 16"
proof -
  have "totalSteps s = 16"
    using reachable_timing_ok [OF assms(1)] by (simp add: timing_ok_def)
  then show ?thesis
    using assms(2)
    by (cases "getPatternForTrack trackId s")
      (auto simp: has_entry_def getPatternForTrack_def createEmptyPattern_def
        split: option.splits lookup.splits)
qed

text \<open>
  Claim C9, amended. For a step index that is no index of the addressed array
  \<open>toggleStep\<close> changes nothing of the stored state and raises nothing; such is every
  index outside \<open>[0, 15]\<close> when the array has at most sixteen steps, as the fresh array of
  a track id without entry has in every state the sequencer reaches (a stored array that
  was loaded may be longer). For a track id without an entry in the active pattern
  \<open>toggleStep\<close> changes nothing of the stored state, the toggle landing on a fresh array
  that is dropped or nowhere; it raises an exception exactly when the index lies inside
  that array and the track selector that \<open>updateStepUI\<close> hands to \<open>querySelector\<close> is not
  accepted.
\<close>

theorem toggleStep_noop:
  "(arr_get (steps_of (getPatternForTrack trackId s)) stepIndex = None \<longrightarrow>
      toggleStep trackId stepIndex s = s
      \<and> toggleStep_error page' trackId stepIndex s = None)
   \<and> ((stepIndex < 0 \<or> 15 < stepIndex)
        \<and> length (steps_of (getPatternForTrack trackId s)) \<le> 16 \<longrightarrow>
        arr_get (steps_of (getPatternForTrack trackId s)) stepIndex = None)
   \<and> (reachable s \<and> \<not> has_entry trackId s \<longrightarrow>
        length (steps_of (getPatternForTrack trackId s)) \<le> 16)
   \<and> (\<not> has_entry trackId s \<longrightarrow>
        toggleStep trackId stepIndex s = s
        \<and> toggleStep_error page' trackId stepIndex s =
            (if arr_get (steps_of (getPatternForTrack trackId s)) stepIndex \<noteq> None
                \<and> \<not> selector_ok page' (track_selector trackId)
             then Some SyntaxError else None))"
proof -
  have 1: "toggleStep trackId stepIndex s = s"
    if "arr_get (steps_of (getPatternForTrack trackId s)) stepIndex = None"
    using that
    by (cases "getPatternForTrack trackId s") (simp_all add: toggleStep_def write_step_def)
  have 2: "toggleStep_error page' trackId stepIndex s = None"
    if "arr_get (steps_of (getPatternForTrack trackId s)) stepIndex = None"
    using that by (simp add: toggleStep_error_def)
  have 3: "arr_get (steps_of (getPatternForTrack trackId s)) stepIndex = None"
    if "stepIndex < 0 \<or> 15 < stepIndex"
      "length (steps_of (getPatternForTrack trackId s)) \<le> 16"
    using that by (auto simp: arr_get_def)
  have 4: "toggleStep trackId stepIndex s = s" if "\<not> has_entry trackId s"
    using that
    by (cases "getPatternForTrack trackId s")
      (simp_all add: toggleStep_def write_step_def has_entry_def)
  have 5: "toggleStep_error page' trackId stepIndex s =
            (if arr_get (steps_of (getPatternForTrack trackId s)) stepIndex \<noteq> None
                \<and> \<not> selector_ok page' (track_selector trackId)
             then Some SyntaxError else None)"
    by (cases "arr_get (steps_of (getPatternForTrack trackId s)) stepIndex")
      (simp_all add: toggleStep_error_def updateStepUI_error_def)
  show ?thesis
    using 1 2 3 4 5 no_entry_length [of s trackId] by blast
qed

lemma studio_page_selectors:
  "selector_ok studio_page (track_selector ''track-9'')"
  "\<not> selector_ok studio_page (track_selector [CHR ''a'', CHR 0x22, CHR ''b''])"
  by (simp_all add: studio_page_def track_selector_def)

theorem toggleStep_noop_witness:
  "toggleStep ''track-1'' 16 initial_sequencer = initial_sequencer
   \<and> toggleStep_error studio_page ''track-1'' 16 initial_sequencer = None
   \<and> toggleStep ''track-1'' (- 1) initial_sequencer = initial_sequencer
   \<and> toggleStep ''track-9'' 16 initial_sequencer = initial_sequencer
   \<and> toggleStep_error studio_page ''track-9'' 16 initial_sequencer = None
   \<and> toggleStep ''track-9'' 3 initial_sequencer = initial_sequencer
   \<and> toggleStep_error studio_page ''track-9'' 3 initial_sequencer = None
   \<and> toggleStep [CHR ''a'', CHR 0x22, CHR ''b''] 3 initial_sequencer = initial_sequencer
   \<and> toggleStep_error studio_page [CHR ''a'', CHR 0x22, CHR ''b''] 3 initial_sequencer
       = Some SyntaxError
   \<and> toggleStep ''constructor'' 3 initial_sequencer = initial_sequencer
   \<and> toggleStep_error studio_page ''constructor'' 3 initial_sequencer = None
   \<and> toggleStep ''track-1'' 3 initial_sequencer \<noteq> initial_sequencer"
proof -
  let ?q = "[CHR ''a'', CHR 0x22, CHR ''b'']"
  have g1: "getPatternForTrack ''track-1'' initial_sequencer = Stored (replicate 16 empty_step)"
    and g9: "getPatternForTrack ''track-9'' initial_sequencer = Fresh (replicate 16 empty_step)"
    and gc: "getPatternForTrack ''constructor'' initial_sequencer = Foreign"
    by (rule initial_getPatternForTrack)+
  have gq: "getPatternForTrack ?q initial_sequencer = Fresh (replicate 16 empty_step)"
    by (simp add: getPatternForTrack_def initial_sequencer_store obj_get_def proto_keys_def
        createEmptyPattern_def empty_step_def)
  have n9: "\<not> has_entry ''track-9'' initial_sequencer"
    and nc: "\<not> has_entry ''constructor'' initial_sequencer"
    and nq: "\<not> has_entry ?q initial_sequencer"
    by (simp_all add: has_entry_def g9 gc gq)
  have "stepActive ''track-1'' 3 initial_sequencer = Some False"
    by (simp add: stepActive_def g1 arr_get_def empty_step_def)
  moreover have "stepActive ''track-1'' 3 (toggleStep ''track-1'' 3 initial_sequencer) = Some True"
    using stepActive_toggle_stored [OF g1, of 3 empty_step]
    by (simp add: arr_get_def empty_step_def)
  ultimately have d: "toggleStep ''track-1'' 3 initial_sequencer \<noteq> initial_sequencer"
    by auto
  show ?thesis
    using toggleStep_noop [of "''track-1''" initial_sequencer 16 studio_page]
      toggleStep_noop [of "''track-1''" initial_sequencer "- 1" studio_page]
      toggleStep_noop [of "''track-9''" initial_sequencer 16 studio_page]
      toggleStep_noop [of "''track-9''" initial_sequencer 3 studio_page]
      toggleStep_noop [of ?q initial_sequencer 3 studio_page]
      toggleStep_noop [of "''constructor''" initial_sequencer 3 studio_page]
      reachable_initial_sequencer n9 nc nq d studio_page_selectors
    by (simp add: g1 g9 gc gq arr_get_def)
qed

subsection \<open>Solo and mute\<close>

lemma find_update_first:
  assumes "\<And>x. P x \<Longrightarrow> P (f x)"
  shows "find P (update_first P f xs) = map_option f (find P xs)"
  using assms by (induction xs) auto

lemma find_map_same:
  assumes "\<And>x. P (g x) = P x"
  shows "find P (map g xs) = map_option g (find P xs)"
  using assms by (induction xs) auto

text \<open>
  Claim C2 as stated fails where the soloed track was muted before: after muting the first
  track and then soloing it (its \<open>solo\<close> flag was false), it is still muted.
\<close>

theorem toggleTrackSolo_muted_counterexample:
  "id_track (hd (tracks (toggleTrackMute ''track-1'' initial_sequencer))) = ''track-1''
   \<and> \<not> solo (hd (tracks (toggleTrackMute ''track-1'' initial_sequencer)))
   \<and> id_track (hd (tracks (toggleTrackSolo ''track-1''
          (toggleTrackMute ''track-1'' initial_sequencer)))) = ''track-1''
   \<and> solo (hd (tracks (toggleTrackSolo ''track-1''
          (toggleTrackMute ''track-1'' initial_sequencer))))
   \<and> muted (hd (tracks (toggleTrackSolo ''track-1''
          (toggleTrackMute ''track-1'' initial_sequencer))))"
  by (simp add: initial_sequencer_def new_Sequencer_def createDefaultPattern_def
      createDefaultTracks_def toggleTrackMute_def toggleTrackSolo_def Let_def)

text \<open>
  Claim C2, amended. For every track \<open>A\<close> whose \<open>solo\<close> flag is false, \<open>toggleTrackSolo(A)\<close>
  sets the flag and changes nothing else of \<open>A\<close> (its \<open>muted\<close> flag stays as it was), and
  mutes every track with another id; calling it again clears the flag and unmutes every
  track, whatever was muted before.
\<close>

theorem toggleTrackSolo_effect:
  assumes "find (\<lambda>t. id_track t = A) (tracks s) = Some a" and "\<not> solo a"
  shows "find (\<lambda>t. id_track t = A) (tracks (toggleTrackSolo A s)) = Some (a\<lparr>solo := True\<rparr>)
       \<and> (\<forall>t \<in> set (tracks (toggleTrackSolo A s)). id_track t \<noteq> A \<longrightarrow> muted t)
       \<and> map_option solo (find (\<lambda>t. id_track t = A)
            (tracks (toggleTrackSolo A (toggleTrackSolo A s)))) = Some False
       \<and> (\<forall>t \<in> set (tracks (toggleTrackSolo A (toggleTrackSolo A s))). \<not> muted t)"
proof -
  let ?P = "\<lambda>t. id_track t = A"
  let ?flip = "\<lambda>t. t\<lparr>solo := \<not> solo t\<rparr>"
  let ?mute = "\<lambda>t. if id_track t \<noteq> A then t\<lparr>muted := True\<rparr> else t"
  let ?s1 = "toggleTrackSolo A s"
  have t1: "tracks ?s1 = map ?mute (update_first ?P ?flip (tracks s))"
    using assms by (simp add: toggleTrackSolo_def Let_def)
  have "find ?P (update_first ?P ?flip (tracks s)) = map_option ?flip (find ?P (tracks s))"
    by (rule find_update_first) simp
  then have f0: "find ?P (update_first ?P ?flip (tracks s)) = Some (a\<lparr>solo := True\<rparr>)"
    using assms by simp
  have "find ?P (map ?mute (update_first ?P ?flip (tracks s)))
      = map_option ?mute (find ?P (update_first ?P ?flip (tracks s)))"
    by (rule find_map_same) simp
  moreover have "id_track a = A"
    using assms(1) by (auto simp: find_Some_iff)
  ultimately have f1: "find ?P (tracks ?s1) = Some (a\<lparr>solo := True\<rparr>)"
    using f0 t1 by simp
  have m1: "\<forall>t \<in> set (tracks ?s1). id_track t \<noteq> A \<longrightarrow> muted t"
    unfolding t1 by auto
  have t2: "tracks (toggleTrackSolo A ?s1) =
      map (\<lambda>t. t\<lparr>muted := False\<rparr>) (update_first ?P ?flip (tracks ?s1))"
    using f1 by (simp add: toggleTrackSolo_def Let_def)
  have "find ?P (update_first ?P ?flip (tracks ?s1)) = map_option ?flip (find ?P (tracks ?s1))"
    by (rule find_update_first) simp
  moreover have "find ?P (map (\<lambda>t. t\<lparr>muted := False\<rparr>) (update_first ?P ?flip (tracks ?s1)))
      = map_option (\<lambda>t. t\<lparr>muted := False\<rparr>) (find ?P (update_first ?P ?flip (tracks ?s1)))"
    by (rule find_map_same) simp
  ultimately have f2: "map_option solo (find ?P (tracks (toggleTrackSolo A ?s1))) = Some False"
    using f1 t2 by simp
  have m2: "\<forall>t \<in> set (tracks (toggleTrackSolo A ?s1)). \<not> muted t"
    unfolding t2 by auto
  show ?thesis using f1 m1 f2 m2 by blast
qed

lemma initial_find_track3:
  "map_option (\<lambda>t. (solo t, muted t)) (find (\<lambda>t. id_track t = ''track-3'')
     (tracks (toggleTrackMute ''track-2'' initial_sequencer))) = Some (False, False)"
  by (simp add: initial_sequencer_def new_Sequencer_def createDefaultPattern_def
      createDefaultTracks_def toggleTrackMute_def Let_def)

theorem toggleTrackSolo_effect_witness:
  "map (\<lambda>t. (id_track t, muted t))
     (tracks (toggleTrackSolo ''track-3'' (toggleTrackMute ''track-2'' initial_sequencer))) =
     [(''track-1'', True), (''track-2'', True), (''track-3'', False), (''track-4'', True)]
   \<and> list_all (\<lambda>t. \<not> muted t)
       (tracks (toggleTrackSolo ''track-3''
          (toggleTrackSolo ''track-3'' (toggleTrackMute ''track-2'' initial_sequencer))))"
proof -
  let ?s = "toggleTrackMute ''track-2'' initial_sequencer"
  obtain a where a: "find (\<lambda>t. id_track t = ''track-3'') (tracks ?s) = Some a" "\<not> solo a"
    using initial_find_track3 by auto
  have "map (\<lambda>t. (id_track t, muted t)) (tracks (toggleTrackSolo ''track-3'' ?s)) =
     [(''track-1'', True), (''track-2'', True), (''track-3'', False), (''track-4'', True)]"
    by (simp add: initial_sequencer_def new_Sequencer_def createDefaultPattern_def
      createDefaultTracks_def toggleTrackMute_def toggleTrackSolo_def Let_def)
  then show ?thesis
    using toggleTrackSolo_effect [OF a] by (simp add: list_all_iff)
qed

section \<open>Properties of the instruments\<close>














text \<open>
  The drum table, the fallback to the kick for a note that names nothing in the table
  and nothing inherited, and the duration being ignored.
\<close>

lemma drumType_table:
  "map drumType [''C4'', ''D4'', ''E4'', ''F4'', ''G4'', ''A4'', ''B4'', ''C5'', ''D5''] =
     map Some [''kick'', ''snare'', ''hihat'', ''openhat'', ''crash'', ''ride'', ''tom1'',
               ''tom2'', ''tom3'']"
  by (simp add: drumType_def drumMap_def obj_get_def)

lemma Drums_playNote_fallback:
  assumes "map_of drumMap n = None" "\<not> List.member proto_keys n"
  shows "Drums_playNote vol now n v d =
           Some \<lparr>v_oscillators = [],
                 v_buffers = [\<lparr>src_buffer = KickSample, src_start = now, src_duration = None\<rparr>],
                 v_gains = [\<lparr>gain_value = v * vol, gain_events = []\<rparr>]\<rparr>"
  using assms by (simp add: Drums_playNote_def drumType_def obj_get_def drumSamples_def)

lemma Drums_playNote_duration: "Drums_playNote vol now n v d = Drums_playNote vol now n v d'"
  by (simp add: Drums_playNote_def)

text \<open>
  Claim C10 at a failing input. The note \<open>constructor\<close> is not in the drum table, yet
  \<open>playNote\<close> returns \<open>null\<close> for it and nothing sounds: \<open>drumMap['constructor']\<close> is the
  inherited \<open>Object\<close> function, which is truthy, so \<open>|| 'kick'\<close> does not apply, and
  \<open>drumSamples\<close> has no sample under it. A note such as \<open>H9\<close>, which names nothing
  inherited, does fall back to the kick.
\<close>

theorem Drums_playNote_inherited_name:
  "map_of drumMap ''constructor'' = None
   \<and> Drums_playNote vol now ''constructor'' v d = None
   \<and> Drums_playNote vol now ''H9'' v d =
        Some \<lparr>v_oscillators = [],
              v_buffers = [\<lparr>src_buffer = KickSample, src_start = now, src_duration = None\<rparr>],
              v_gains = [\<lparr>gain_value = v * vol, gain_events = []\<rparr>]\<rparr>"
  by (simp add: Drums_playNote_def drumType_def obj_get_def drumSamples_def drumMap_def
      proto_keys_def)

section \<open>Stopping the transport\<close>

lemma stop_frame:
  "live_voices (stop s) = live_voices s \<and> instrumentManager (stop s) = instrumentManager s"
  by (simp add: stop_def stopScheduler_def stopPlayback_def live_voices_def Let_def)

lemma ctxTime_stop: "ctxTime (audioEngine (stop s)) = ctxTime (audioEngine s)"
  by (simp add: stop_def stopScheduler_def stopPlayback_def Let_def)

lemma toggled_patterns:
  "getPatternForTrack ''track-1'' (toggleStep ''track-1'' 0 initial_sequencer) =
     Stored ((replicate 16 empty_step)[0 := empty_step\<lparr>active := True\<rparr>])"
  "getPatternForTrack ''track-2'' (toggleStep ''track-1'' 0 initial_sequencer) =
     Stored (replicate 16 empty_step)"
  "getPatternForTrack ''track-3'' (toggleStep ''track-1'' 0 initial_sequencer) =
     Stored (replicate 16 empty_step)"
  "getPatternForTrack ''track-4'' (toggleStep ''track-1'' 0 initial_sequencer) =
     Stored (replicate 16 empty_step)"
  by (simp_all add: toggleStep_def write_step_def modify_step_def initial_getPatternForTrack
      getPatternForTrack_def initial_sequencer_store obj_get_def arr_get_def empty_step_def)

lemma getPatternForTrack_cong:
  assumes "activePattern s' = activePattern s" "patterns s' = patterns s"
    "totalSteps s' = totalSteps s"
  shows "getPatternForTrack t s' = getPatternForTrack t s"
  unfolding getPatternForTrack_def createEmptyPattern_def assms ..

lemma getPatternForTrack_play [simp]: "getPatternForTrack t (play s) = getPatternForTrack t s"
  by (rule getPatternForTrack_cong) (simp_all add: play_def startScheduler_def Let_def)

lemma initial_sequencer_fields:
  "audioEngine initial_sequencer = new_AudioEngine 0"
  "instrumentManager initial_sequencer = new_InstrumentManager"
  "bpm initial_sequencer = 120"
  "stepDuration initial_sequencer = 1 / 8"
  "currentStep initial_sequencer = 0"
  "nextStepTime initial_sequencer = 0"
  "\<not> isPlaying initial_sequencer"
  "\<not> schedulerInterval initial_sequencer"
  "map (\<lambda>t. (id_track t, instrument_track t, muted t)) (tracks initial_sequencer) =
     [(''track-1'', Piano, False), (''track-2'', Drums, False), (''track-3'', Bass, False),
      (''track-4'', Synth, False)]"
  by (simp_all add: initial_sequencer_def new_Sequencer_def createDefaultPattern_def
      createDefaultTracks_def Let_def)

lemma write_step_fields:
  "audioEngine (write_step t i f s) = audioEngine s"
  "instrumentManager (write_step t i f s) = instrumentManager s"
  "currentStep (write_step t i f s) = currentStep s"
  "isPlaying (write_step t i f s) = isPlaying s"
  "schedulerInterval (write_step t i f s) = schedulerInterval s"
  "tracks (write_step t i f s) = tracks s"
  "activePattern (write_step t i f s) = activePattern s"
  by (simp_all add: write_step_def modify_step_def split: steps_ref.splits option.splits)

lemma toggleStep_fields:
  "audioEngine (toggleStep t i s) = audioEngine s"
  "instrumentManager (toggleStep t i s) = instrumentManager s"
  "currentStep (toggleStep t i s) = currentStep s"
  "isPlaying (toggleStep t i s) = isPlaying s"
  "schedulerInterval (toggleStep t i s) = schedulerInterval s"
  "tracks (toggleStep t i s) = tracks s"
  "activePattern (toggleStep t i s) = activePattern s"
  "stepDuration (toggleStep t i s) = stepDuration s"
  "totalSteps (toggleStep t i s) = totalSteps s"
  by (simp_all add: toggleStep_def write_step_fields)

lemma play_fields:
  assumes "\<not> isPlaying s"
  shows "tracks (play s) = tracks s" "stepDuration (play s) = stepDuration s"
    "nextStepTime (play s) = ctxTime (audioEngine s)" "currentStep (play s) = 0"
    "graph (audioEngine (play s)) = graph (audioEngine s)"
    "ctxTime (audioEngine (play s)) = ctxTime (audioEngine s)"
    "instrumentManager (play s) = instrumentManager s"
    "totalSteps (play s) = totalSteps s"
    "isPlaying (play s)" "schedulerInterval (play s)"
  using assms
  by (simp_all add: play_def startScheduler_def startPlayback_def animationLoop_def
      getCurrentTime_def Let_def)

lemma play_toggled_fields:
  "map (\<lambda>t. (id_track t, instrument_track t, muted t))
     (tracks (play (toggleStep ''track-1'' 0 initial_sequencer))) =
     [(''track-1'', Piano, False), (''track-2'', Drums, False), (''track-3'', Bass, False),
      (''track-4'', Synth, False)]"
  "stepDuration (play (toggleStep ''track-1'' 0 initial_sequencer)) = 1 / 8"
  "nextStepTime (play (toggleStep ''track-1'' 0 initial_sequencer)) = 0"
  "currentStep (play (toggleStep ''track-1'' 0 initial_sequencer)) = 0"
  "graph (audioEngine (play (toggleStep ''track-1'' 0 initial_sequencer))) = []"
  "ctxTime (audioEngine (play (toggleStep ''track-1'' 0 initial_sequencer))) = 0"
  "instrumentManager (play (toggleStep ''track-1'' 0 initial_sequencer)) = new_InstrumentManager"
  "totalSteps (play (toggleStep ''track-1'' 0 initial_sequencer)) = 16"
  "isPlaying (play (toggleStep ''track-1'' 0 initial_sequencer))"
  "schedulerInterval (play (toggleStep ''track-1'' 0 initial_sequencer))"
proof -
  have n: "\<not> isPlaying (toggleStep ''track-1'' 0 initial_sequencer)"
    by (simp add: toggleStep_fields initial_sequencer_fields)
  note p = play_fields [OF n]
  show "map (\<lambda>t. (id_track t, instrument_track t, muted t))
     (tracks (play (toggleStep ''track-1'' 0 initial_sequencer))) =
     [(''track-1'', Piano, False), (''track-2'', Drums, False), (''track-3'', Bass, False),
      (''track-4'', Synth, False)]"
    by (simp add: p toggleStep_fields initial_sequencer_fields)
  show "stepDuration (play (toggleStep ''track-1'' 0 initial_sequencer)) = 1 / 8"
    by (simp add: p toggleStep_fields initial_sequencer_fields)
  show "nextStepTime (play (toggleStep ''track-1'' 0 initial_sequencer)) = 0"
    by (simp add: p toggleStep_fields initial_sequencer_fields new_AudioEngine_def)
  show "currentStep (play (toggleStep ''track-1'' 0 initial_sequencer)) = 0"
    by (simp add: p)
  show "graph (audioEngine (play (toggleStep ''track-1'' 0 initial_sequencer))) = []"
    by (simp add: p toggleStep_fields initial_sequencer_fields new_AudioEngine_def)
  show "ctxTime (audioEngine (play (toggleStep ''track-1'' 0 initial_sequencer))) = 0"
    by (simp add: p toggleStep_fields initial_sequencer_fields new_AudioEngine_def)
  show "instrumentManager (play (toggleStep ''track-1'' 0 initial_sequencer)) = new_InstrumentManager"
    by (simp add: p toggleStep_fields initial_sequencer_fields)
  show "totalSteps (play (toggleStep ''track-1'' 0 initial_sequencer)) = 16"
    by (simp add: p toggleStep_fields initial_sequencer_store)
  show "isPlaying (play (toggleStep ''track-1'' 0 initial_sequencer))"
    by (simp add: p)
  show "schedulerInterval (play (toggleStep ''track-1'' 0 initial_sequencer))"
    by (simp add: p)
qed

lemma triggered_engine:
  "graph (audioEngine triggered_sequencer) = [Piano_playNote 0.8 0 ''C4'' 0.8 (Some (1 / 8))]"
  "ctxTime (audioEngine triggered_sequencer) = 0"
proof -
  let ?s = "play (toggleStep ''track-1'' 0 initial_sequencer)"
  obtain t1 t2 t3 t4 where ts: "tracks ?s = [t1, t2, t3, t4]"
    and t1: "id_track t1 = ''track-1''" "instrument_track t1 = Piano" "\<not> muted t1"
    and t2: "id_track t2 = ''track-2''"
    and t3: "id_track t3 = ''track-3''"
    and t4: "id_track t4 = ''track-4''"
    using play_toggled_fields(1) by (auto simp: map_eq_Cons_conv)
  let ?em = "(audioEngine ?s, instrumentManager ?s)"
  let ?played = "playNote ''C4'' 0.8 (Some (1 / 8))
                   (audioEngine ?s, setActiveInstrument Piano new_InstrumentManager)"
  have 1: "playStep_track 0 ?s ?em t1 = ?played"
    using t1 by (simp add: playStep_track_def toggled_patterns arr_get_def empty_step_def
        play_toggled_fields)
  have 2: "playStep_track 0 ?s em t = em"
    if "id_track t = ''track-2'' \<or> id_track t = ''track-3'' \<or> id_track t = ''track-4''"
    for em t
    using that by (auto simp: playStep_track_def toggled_patterns arr_get_def empty_step_def)
  have 3: "graph (fst ?played) = [Piano_playNote 0.8 0 ''C4'' 0.8 (Some (1 / 8))]"
    "ctxTime (fst ?played) = 0"
    by (simp_all add: playNote_def instrument_playNote_def setActiveInstrument_def
        new_InstrumentManager_def play_toggled_fields Let_def)
  have "foldl (playStep_track 0 ?s) ?em (tracks ?s) = ?played"
    by (simp add: ts 1 2 t2 t3 t4)
  then have "audioEngine (playStep 0 ?s) = fst ?played"
    by (simp add: playStep_def Let_def)
  then have "audioEngine triggered_sequencer = fst ?played"
    by (simp add: triggered_sequencer_def advance_def Let_def play_toggled_fields)
  with 3 show "graph (audioEngine triggered_sequencer) = [Piano_playNote 0.8 0 ''C4'' 0.8 (Some (1 / 8))]"
    and "ctxTime (audioEngine triggered_sequencer) = 0"
    by simp_all
qed

lemma scheduleSteps_triggered:
  "scheduleSteps (play (toggleStep ''track-1'' 0 initial_sequencer)) = Some triggered_sequencer"
proof -
  let ?s = "play (toggleStep ''track-1'' 0 initial_sequencer)"
  have "nextStepTime (advance ?s) = 1 / 8"
    by (simp add: advance_nextStepTime play_toggled_fields)
  then have "scheduleLoop 0 (advance ?s) = Some (advance ?s)"
    by (subst scheduleLoop.simps) simp
  then have "scheduleLoop 0 ?s = Some (advance ?s)"
    by (subst scheduleLoop.simps) (simp add: play_toggled_fields)
  then show ?thesis
    by (simp add: scheduleSteps_def getCurrentTime_def play_toggled_fields
        triggered_sequencer_def)
qed

lemma Piano_voice_pending: "automation_pending 0 (Piano_playNote 0.8 0 ''C4'' 0.8 (Some (1 / 8)))"
  by (simp add: automation_pending_def Piano_playNote_def envelope_def or_default_def Let_def)

text \<open>
  Claim C1 as stated fails. With step 0 of the piano track on, \<open>play\<close> and one timer
  callback trigger a piano voice; \<open>stop\<close> called right then leaves that voice in the graph
  with its envelope ramps and its oscillator stop still scheduled for later times.
\<close>

theorem stop_retracts_counterexample:
  "scheduleSteps (play (toggleStep ''track-1'' 0 initial_sequencer)) = Some triggered_sequencer
   \<and> live_voices triggered_sequencer \<noteq> []
   \<and> live_voices (stop triggered_sequencer) = live_voices triggered_sequencer
   \<and> \<not> voices_retracted (stop triggered_sequencer)"
proof -
  have lv: "live_voices triggered_sequencer = [Piano_playNote 0.8 0 ''C4'' 0.8 (Some (1 / 8))]"
    by (simp add: live_voices_def triggered_engine)
  have ls: "live_voices (stop triggered_sequencer) = live_voices triggered_sequencer"
    by (simp add: stop_frame)
  have "\<not> voices_retracted (stop triggered_sequencer)"
    unfolding voices_retracted_def ls lv ctxTime_stop triggered_engine(2)
    using Piano_voice_pending by simp
  then show ?thesis
    using lv ls scheduleSteps_triggered by simp
qed

lemma stop_engine:
  "\<not> isPlaying_engine (audioEngine (stop s))"
  "currentTime_engine (audioEngine (stop s)) = 0"
  "\<not> animationFrame (audioEngine (stop s))"
  by (simp_all add: stop_def stopScheduler_def stopPlayback_def Let_def)

lemma stop_transport:
  "\<not> isPlaying (stop s)" "currentStep (stop s) = 0" "\<not> schedulerInterval (stop s)"
  by (simp_all add: stop_def stopScheduler_def Let_def)

text \<open>
  Claim C1, amended. \<open>stop\<close> clears \<open>isPlaying\<close>, resets \<open>currentStep\<close> to \<open>0\<close>, stops the
  playback clock of the engine (its \<open>isPlaying\<close> flag cleared, its elapsed time back at
  \<open>0\<close>, its frame callback cancelled) and clears the timer, so that a later timer callback
  triggers nothing; it does not touch the voices already triggered: the live voices,
  with their scheduled automation and stops, and the instrument manager are as before,
  and the voices are retracted after \<open>stop\<close> exactly when they already were before it.
\<close>

theorem stop_leaves_voices:
  "\<not> isPlaying (stop s) \<and> currentStep (stop s) = 0 \<and> \<not> schedulerInterval (stop s)
   \<and> \<not> isPlaying_engine (audioEngine (stop s))
   \<and> currentTime_engine (audioEngine (stop s)) = 0
   \<and> \<not> animationFrame (audioEngine (stop s))
   \<and> exec TimerTick (stop s) = Some (stop s)
   \<and> live_voices (stop s) = live_voices s
   \<and> instrumentManager (stop s) = instrumentManager s
   \<and> voices_retracted (stop s) = voices_retracted s"
proof -
  have "exec TimerTick (stop s) = Some (stop s)"
    using stop_transport(3) [of s] by simp
  moreover have "voices_retracted (stop s) = voices_retracted s"
    by (simp add: stop_frame voices_retracted_def ctxTime_stop)
  ultimately show ?thesis
    using stop_engine [of s] stop_transport [of s] stop_frame [of s] by simp
qed

section \<open>Properties of the effects\<close>

lemma applyEffectParam_globalEffects:
  "globalEffects (fst (applyEffectParam now n p v m)) = globalEffects m"
  by (simp add: applyEffectParam_def Let_def split: option.splits sum.splits)

lemma applyEffectParam_delay_present:
  "(fx_delay (effects (fst (applyEffectParam now n p v m))) = None) = (fx_delay (effects m) = None)"
  by (simp add: applyEffectParam_def Let_def split: option.splits sum.splits)

lemma settles_at_setTargetAtTime: "settles_at (setTargetAtTime x t c p) = x"
  by (simp add: settles_at_def setTargetAtTime_def)

lemma apply_delay_feedbackGain:
  "delay_feedbackGain (apply_delay now p v d) =
     (if p = Some ''feedback''
      then setTargetAtTime (toNumber v) now 0.01 (delay_feedbackGain d)
      else delay_feedbackGain d)"
  by (simp add: apply_delay_def)

lemma apply_delay_feedback:
  "settles_at (delay_feedbackGain (apply_delay now p v d)) =
     (if p = Some ''feedback'' then toNumber v else settles_at (delay_feedbackGain d))"
  by (simp add: apply_delay_feedbackGain settles_at_setTargetAtTime)

lemma applyEffectParam_feedback:
  "feedback_coefficient (fst (applyEffectParam now n p v m)) =
     (if n = ''delay'' \<and> p = Some ''feedback'' \<and> fx_delay (effects m) \<noteq> None
      then Some (toNumber v) else feedback_coefficient m)"
  by (auto simp: applyEffectParam_def feedback_coefficient_def apply_delay_feedback Let_def
      split: option.splits sum.splits)

lemma applyEffectParam_no_error:
  "n \<noteq> ''distortion'' \<or> map_of (globalEffects m) ''distortion'' \<noteq> None \<Longrightarrow>
   snd (applyEffectParam now n p v m) = None"
  by (auto simp: applyEffectParam_def apply_distortion_def createDistortionCurve_def
      distortion_amount_def obj_get_def Let_def split: option.splits sum.splits)

lemma reapply_params_globalEffects:
  "globalEffects (fst (reapply_params now n effect ps m)) = globalEffects m"
proof (induction ps arbitrary: m)
  case Nil
  then show ?case by simp
next
  case (Cons p ps)
  show ?case
  proof (cases "p \<noteq> ''enabled'' \<and> map_of effect p \<noteq> None")
    case False
    then show ?thesis using Cons.IH by auto
  next
    case True
    then obtain v where v: "map_of effect p = Some v" by auto
    obtain m' e where r: "applyEffectParam now n (Some p) v m = (m', e)" by (cases "applyEffectParam now n (Some p) v m")
    have g: "globalEffects m' = globalEffects m"
      using applyEffectParam_globalEffects [of now n "Some p" v m] r by simp
    show ?thesis
      using True v r g Cons.IH [of m'] by (cases e) auto
  qed
qed

lemma reapply_params_delay_present:
  "(fx_delay (effects (fst (reapply_params now n effect ps m))) = None) = (fx_delay (effects m) = None)"
proof (induction ps arbitrary: m)
  case Nil
  then show ?case by simp
next
  case (Cons p ps)
  show ?case
  proof (cases "p \<noteq> ''enabled'' \<and> map_of effect p \<noteq> None")
    case False
    then show ?thesis using Cons.IH by auto
  next
    case True
    then obtain v where v: "map_of effect p = Some v" by auto
    obtain m' e where r: "applyEffectParam now n (Some p) v m = (m', e)" by (cases "applyEffectParam now n (Some p) v m")
    have g: "(fx_delay (effects m') = None) = (fx_delay (effects m) = None)"
      using applyEffectParam_delay_present [of now n "Some p" v m] r by simp
    show ?thesis
      using True v r g Cons.IH [of m'] by (cases e) auto
  qed
qed

lemma reapply_params_no_error:
  assumes "n \<noteq> ''distortion'' \<or> map_of (globalEffects m) ''distortion'' \<noteq> None"
  shows "snd (reapply_params now n effect ps m) = None"
  using assms
proof (induction ps arbitrary: m)
  case Nil
  then show ?case by simp
next
  case (Cons p ps)
  show ?case
  proof (cases "p \<noteq> ''enabled'' \<and> map_of effect p \<noteq> None")
    case False
    then show ?thesis using Cons.IH [OF Cons.prems] by auto
  next
    case True
    then obtain v where v: "map_of effect p = Some v" by auto
    obtain m' e where r: "applyEffectParam now n (Some p) v m = (m', e)" by (cases "applyEffectParam now n (Some p) v m")
    have e: "e = None"
      using applyEffectParam_no_error [OF Cons.prems, of now "Some p" v] r by simp
    have g: "globalEffects m' = globalEffects m"
      using applyEffectParam_globalEffects [of now n "Some p" v m] r by simp
    have "n \<noteq> ''distortion'' \<or> map_of (globalEffects m') ''distortion'' \<noteq> None"
      using Cons.prems g by simp
    from Cons.IH [OF this] show ?thesis
      using True v r e by auto
  qed
qed

lemma reapply_params_feedback:
  "feedback_coefficient (fst (reapply_params now n effect ps m)) =
     (if n = ''delay'' \<and> ''feedback'' \<in> set ps \<and> fx_delay (effects m) \<noteq> None
         \<and> map_of effect ''feedback'' \<noteq> None
      then map_option toNumber (map_of effect ''feedback'')
      else feedback_coefficient m)"
proof (induction ps arbitrary: m)
  case Nil
  then show ?case by simp
next
  case (Cons p ps)
  show ?case
  proof (cases "p \<noteq> ''enabled'' \<and> map_of effect p \<noteq> None")
    case False
    then show ?thesis using Cons.IH [of m] by auto
  next
    case True
    then obtain v where v: "map_of effect p = Some v" by auto
    obtain m' e where r: "applyEffectParam now n (Some p) v m = (m', e)" by (cases "applyEffectParam now n (Some p) v m")
    have g: "(fx_delay (effects m') = None) = (fx_delay (effects m) = None)"
      using applyEffectParam_delay_present [of now n "Some p" v m] r by simp
    have f: "feedback_coefficient m' =
       (if n = ''delay'' \<and> p = ''feedback'' \<and> fx_delay (effects m) \<noteq> None
        then Some (toNumber v) else feedback_coefficient m)"
      using applyEffectParam_feedback [of now n "Some p" v m] r by simp
    show ?thesis
    proof (cases e)
      case None
      then show ?thesis
        using True v r g f Cons.IH [of m'] by auto
    next
      case (Some err)
      have "n = ''distortion''"
        using applyEffectParam_no_error [of n m now "Some p" v] r Some by auto
      then show ?thesis
        using True v r f Some by auto
    qed
  qed
qed

lemma reapply_effects_no_error:
  assumes "set ns \<subseteq> fst ` set (globalEffects m)"
  shows "snd (reapply_effects now ns m) = None"
  using assms
proof (induction ns arbitrary: m)
  case Nil
  then show ?case by simp
next
  case (Cons n ns)
  from Cons.prems obtain effect where effect: "map_of (globalEffects m) n = Some effect"
    by (cases "map_of (globalEffects m) n") (auto simp: map_of_eq_None_iff)
  obtain m' e where r: "reapply_params now n effect (map fst effect) m = (m', e)"
    by (cases "reapply_params now n effect (map fst effect) m")
  have "n \<noteq> ''distortion'' \<or> map_of (globalEffects m) ''distortion'' \<noteq> None"
    using effect by auto
  from reapply_params_no_error [OF this, of now effect "map fst effect"] r
  have e: "e = None" by simp
  have "globalEffects m' = globalEffects m"
    using reapply_params_globalEffects [of now n effect "map fst effect" m] r by simp
  with Cons.prems have "set ns \<subseteq> fst ` set (globalEffects m')" by simp
  from Cons.IH [OF this] show ?case
    using effect r e by simp
qed

lemma reapply_effects_feedback:
  assumes "map_of (globalEffects m) ''delay'' = Some st" "map_of st ''feedback'' = Some v"
    and "fx_delay (effects m) \<noteq> None"
    and "set ns \<subseteq> fst ` set (globalEffects m)"
  shows "feedback_coefficient (fst (reapply_effects now ns m)) =
           (if ''delay'' \<in> set ns \<or> feedback_coefficient m = Some (toNumber v)
            then Some (toNumber v) else feedback_coefficient m)"
  using assms
proof (induction ns arbitrary: m)
  case Nil
  then show ?case by simp
next
  case (Cons n ns)
  from Cons.prems(4) obtain effect where effect: "map_of (globalEffects m) n = Some effect"
    by (cases "map_of (globalEffects m) n") (auto simp: map_of_eq_None_iff)
  obtain m' e where r: "reapply_params now n effect (map fst effect) m = (m', e)"
    by (cases "reapply_params now n effect (map fst effect) m")
  have "n \<noteq> ''distortion'' \<or> map_of (globalEffects m) ''distortion'' \<noteq> None"
    using effect by auto
  from reapply_params_no_error [OF this, of now effect "map fst effect"] r
  have e: "e = None" by simp
  have g: "globalEffects m' = globalEffects m"
    using reapply_params_globalEffects [of now n effect "map fst effect" m] r by simp
  have d: "fx_delay (effects m') \<noteq> None"
    using reapply_params_delay_present [of now n effect "map fst effect" m] r Cons.prems(3)
    by simp
  have mem: "''feedback'' \<in> set (map fst st)"
    using Cons.prems(2) by (metis map_of_eq_None_iff option.distinct(1) set_map)
  have f: "feedback_coefficient m' =
      (if n = ''delay'' then Some (toNumber v) else feedback_coefficient m)"
    using reapply_params_feedback [of now n effect "map fst effect" m] r effect
      Cons.prems(1,2,3) mem by auto
  have pre: "map_of (globalEffects m') ''delay'' = Some st"
    "set ns \<subseteq> fst ` set (globalEffects m')"
    using Cons.prems(1,4) g by simp_all
  have "reapply_effects now (n # ns) m = reapply_effects now ns m'"
    using effect r e by simp
  then show ?case
    using Cons.IH [OF pre(1) Cons.prems(2) d pre(2)] f by simp
qed

lemma loadEffectsData_feedback:
  assumes "fx_delay (effects m) \<noteq> None"
    and "globalEffects_data d = Some ge" "map_of ge ''delay'' = Some st"
    and "map_of st ''feedback'' = Some v"
    and "snd (loadEffectsData now d m) = None"
  shows "feedback_coefficient (fst (loadEffectsData now d m)) = Some (toNumber v)"
proof -
  have key: "''delay'' \<in> set (map fst ge)"
    using assms(3) by (metis map_of_eq_None_iff option.distinct(1) set_map)
  have *: "feedback_coefficient (fst (reapply_effects now (map fst ge) m')) = Some (toNumber v)"
    if "globalEffects m' = ge" "fx_delay (effects m') \<noteq> None" for m'
    using reapply_effects_feedback [of m' st v "map fst ge" now] that assms(3,4) key by simp
  show ?thesis
  proof (cases "effectChains_data d")
    case None
    then show ?thesis
      using assms(1,2) * [of "m\<lparr>globalEffects := ge\<rparr>"]
      by (simp add: loadEffectsData_def Let_def)
  next
    case (Some cf)
    show ?thesis
    proof (cases "new_Map_chains cf")
      case (Inl err)
      with Some assms(5) show ?thesis
        by (simp add: loadEffectsData_def Let_def)
    next
      case (Inr ids)
      with Some show ?thesis
        using assms(1,2) * [of "m\<lparr>globalEffects := ge, effectChains := ids\<rparr>"]
        by (simp add: loadEffectsData_def Let_def)
    qed
  qed
qed

lemma updateEffectParam_feedback:
  assumes "fx_delay (effects m) \<noteq> None" "map_of (globalEffects m) ''delay'' = Some st"
  shows "updateEffectParam now ''delay-feedback'' v m =
           applyEffectParam now ''delay'' (Some ''feedback'') v
             (m\<lparr>globalEffects := obj_set (globalEffects m) ''delay'' (obj_set st ''feedback'' v)\<rparr>)"
    and "feedback_coefficient (fst (updateEffectParam now ''delay-feedback'' v m)) = Some (toNumber v)"
    and "snd (updateEffectParam now ''delay-feedback'' v m) = None"
proof -
  show 1: "updateEffectParam now ''delay-feedback'' v m =
           applyEffectParam now ''delay'' (Some ''feedback'') v
             (m\<lparr>globalEffects := obj_set (globalEffects m) ''delay'' (obj_set st ''feedback'' v)\<rparr>)"
    using assms(2) by (simp add: updateEffectParam_def obj_get_def prop_assign_def Let_def)
  show "feedback_coefficient (fst (updateEffectParam now ''delay-feedback'' v m)) = Some (toNumber v)"
    unfolding 1 using assms(1) by (simp add: applyEffectParam_feedback)
  show "snd (updateEffectParam now ''delay-feedback'' v m) = None"
    unfolding 1 by (rule applyEffectParam_no_error) simp
qed

lemma new_EffectsManager_delay:
  "fx_delay (effects new_EffectsManager) = Some createGlobalDelay"
  "map_of (globalEffects new_EffectsManager) ''delay'' =
     Some [(''enabled'', PBool False), (''time'', PNum 0.3), (''feedback'', PNum 0.4),
           (''wet'', PNum 0.3)]"
  "feedback_coefficient new_EffectsManager = Some (Num 0.4)"
  by (simp_all add: new_EffectsManager_def initial_globalEffects_def feedback_coefficient_def
      createGlobalDelay_def settles_at_def new_param_def)

text \<open>
  Claim C6 as stated fails: \<open>updateEffectParam('delay-feedback', 1)\<close> on the constructed
  manager leaves the feedback gain heading for \<open>1\<close>, which is not below one.
\<close>

theorem feedback_unclamped_counterexample:
  "feedback_coefficient (fst (updateEffectParam 0 ''delay-feedback'' (PNum 1) new_EffectsManager))
     = Some (Num 1)
   \<and> \<not> feedback_below_one
         (fst (updateEffectParam 0 ''delay-feedback'' (PNum 1) new_EffectsManager))"
proof -
  have "feedback_coefficient
          (fst (updateEffectParam 0 ''delay-feedback'' (PNum 1) new_EffectsManager))
        = Some (toNumber (PNum 1))"
    by (rule updateEffectParam_feedback(2) [OF _ new_EffectsManager_delay(2)])
      (simp add: new_EffectsManager_delay)
  then show ?thesis by (simp add: feedback_below_one_def)
qed

text \<open>
  Claim C6, amended. The feedback coefficient is \<open>0.4\<close>, below one, after construction.
  After \<open>applyEffectParam\<close> or \<open>updateEffectParam\<close> on the delay's feedback parameter, and
  after a \<open>loadEffectsData\<close> that does not fail, it is the number of the value supplied,
  whatever that is: nothing clamps it, and it is below one exactly when the supplied
  value is.
\<close>

theorem feedback_follows_value:
  "feedback_coefficient new_EffectsManager = Some (Num 0.4)
   \<and> feedback_below_one new_EffectsManager
   \<and> (fx_delay (effects m) \<noteq> None \<longrightarrow>
        feedback_coefficient (fst (applyEffectParam now ''delay'' (Some ''feedback'') v m))
          = Some (toNumber v))
   \<and> (fx_delay (effects m) \<noteq> None \<and> map_of (globalEffects m) ''delay'' \<noteq> None \<longrightarrow>
        feedback_coefficient (fst (updateEffectParam now ''delay-feedback'' v m))
          = Some (toNumber v)
        \<and> feedback_below_one (fst (updateEffectParam now ''delay-feedback'' (PNum x) m))
          = (x < 1))
   \<and> (fx_delay (effects m) \<noteq> None \<and> globalEffects_data d = Some ge
        \<and> map_of ge ''delay'' = Some st \<and> map_of st ''feedback'' = Some v
        \<and> snd (loadEffectsData now d m) = None \<longrightarrow>
        feedback_coefficient (fst (loadEffectsData now d m)) = Some (toNumber v))"
proof -
  have a: "feedback_below_one new_EffectsManager"
    by (simp add: feedback_below_one_def new_EffectsManager_delay)
  have b: "feedback_coefficient (fst (applyEffectParam now ''delay'' (Some ''feedback'') v m))
          = Some (toNumber v)" if "fx_delay (effects m) \<noteq> None"
    using that by (simp add: applyEffectParam_feedback)
  have c: "feedback_coefficient (fst (updateEffectParam now ''delay-feedback'' w m))
          = Some (toNumber w)"
    if "fx_delay (effects m) \<noteq> None" "map_of (globalEffects m) ''delay'' \<noteq> None" for w
    using that updateEffectParam_feedback(2) [of m _ now w] by auto
  have c': "feedback_below_one (fst (updateEffectParam now ''delay-feedback'' (PNum x) m))
          = (x < 1)"
    if "fx_delay (effects m) \<noteq> None" "map_of (globalEffects m) ''delay'' \<noteq> None"
    using c [OF that, of "PNum x"] by (simp add: feedback_below_one_def)
  show ?thesis
    using a b c c' loadEffectsData_feedback [of m d ge st v now] new_EffectsManager_delay(3)
    by blast
qed

lemma loadEffectsData_error:
  "snd (loadEffectsData now d m) =
     (case effectChains_data d of
        None \<Rightarrow> None
      | Some cf \<Rightarrow> (case new_Map_chains cf of Inl e \<Rightarrow> Some e | Inr ids \<Rightarrow> None))"
  by (auto simp: loadEffectsData_def Let_def split: option.splits sum.splits
      intro!: reapply_effects_no_error)

lemma loud_effects_loads: "snd (loadEffectsData 0 loud_effects new_EffectsManager) = None"
  by (simp add: loadEffectsData_error loud_effects_def)

theorem feedback_follows_value_witness:
  "feedback_coefficient
     (fst (applyEffectParam 0 ''delay'' (Some ''feedback'') (PNum 0.7) new_EffectsManager))
     = Some (Num 0.7)
   \<and> feedback_coefficient
       (fst (updateEffectParam 0 ''delay-feedback'' (PNum 0.7) new_EffectsManager))
     = Some (Num 0.7)
   \<and> feedback_below_one
       (fst (updateEffectParam 0 ''delay-feedback'' (PNum 0.7) new_EffectsManager))
   \<and> feedback_coefficient (fst (loadEffectsData 0 loud_effects new_EffectsManager))
     = Some (Num 0.7)"
  using feedback_follows_value [of new_EffectsManager 0 "PNum 0.7" "0.7" loud_effects
      "[(''delay'', [(''enabled'', PBool True), (''feedback'', PNum 0.7)])]"
      "[(''enabled'', PBool True), (''feedback'', PNum 0.7)]"]
    loud_effects_loads
  by (simp add: new_EffectsManager_delay loud_effects_def)

section \<open>Loading a project\<close>

lemma loadSequencerData_fields:
  "bpm (loadSequencerData d s)
     = (case bpm_data d of
          Some b \<Rightarrow> if b \<noteq> 0 then max 60 (min 200 b) else bpm s
        | None \<Rightarrow> bpm s)"
  "stepDuration (loadSequencerData d s)
     = (case bpm_data d of
          Some b \<Rightarrow> if b \<noteq> 0 then 60 / (max 60 (min 200 b) * stepsPerBeat s)
                    else stepDuration s
        | None \<Rightarrow> stepDuration s)"
  "tracks (loadSequencerData d s) = (case tracks_data d of Some ts \<Rightarrow> ts | None \<Rightarrow> tracks s)"
  by (auto simp: loadSequencerData_def Let_def setBPM_def split: option.splits sum.splits)

lemma loadSequencerData_patterns_failed:
  assumes "patterns_error d \<noteq> None"
  shows "patterns (loadSequencerData d s) = patterns s"
    and "activePattern (loadSequencerData d s) = activePattern s"
  using assms
  by (auto simp: patterns_error_def loadSequencerData_def Let_def setBPM_def
      split: option.splits sum.splits)

lemma loadSequencerData_patterns_read:
  assumes "patterns_error d = None"
  shows "patterns_data d = Some pf \<Longrightarrow> new_Map pf = Inr (patterns (loadSequencerData d s))"
    and "patterns_data d = None \<Longrightarrow> patterns (loadSequencerData d s) = patterns s"
    and "activePattern (loadSequencerData d s)
           = (case activePattern_data d of
                Some k \<Rightarrow> if k \<noteq> [] then Some k else activePattern s
              | None \<Rightarrow> activePattern s)"
  using assms
  by (auto simp: patterns_error_def loadSequencerData_def Let_def setBPM_def
      split: option.splits sum.splits)

lemma createTrackElements_error_TypeError:
  "createTrackElements_error s ts = Some e \<Longrightarrow> e = TypeError"
  by (induction ts)
    (auto simp: createPatternSteps_error_def split: option.splits steps_ref.splits)

lemma loadSequencerData_error_cases:
  assumes "loadSequencerData_error page' d s = Some e"
  shows "patterns_error d \<noteq> None \<Longrightarrow> patterns_error d = Some e"
    and "patterns_error d = None \<Longrightarrow>
           tracksContainer page' \<and> renderTracks_error page' (loadSequencerData d s) = Some e"
  using assms
  by (auto simp: loadSequencerData_error_def renderMixer_error_def renderTracks_error_def
      split: option.splits if_splits)

lemma loadSequencerData_error_TypeError:
  assumes "loadSequencerData_error page' d s = Some e"
  shows "e = TypeError"
proof (cases "patterns_error d")
  case None
  then show ?thesis
    using loadSequencerData_error_cases(2) [OF assms] createTrackElements_error_TypeError
    by (auto simp: renderTracks_error_def split: if_splits)
next
  case (Some e')
  then have "patterns_error d = Some e"
    using loadSequencerData_error_cases(1) [OF assms] by simp
  then show ?thesis
  proof (cases "patterns_data d")
    case None
    with \<open>patterns_error d = Some e\<close> show ?thesis by (simp add: patterns_error_def)
  next
    case (Some pf)
    have "new_Map pf = Inl e' \<Longrightarrow> e' = TypeError" for e'
    proof (cases pf)
      case (Entries es)
      have "Map_entries acc es = Inl e' \<Longrightarrow> e' = TypeError" for acc
        by (induction acc es rule: Map_entries.induct) auto
      then show "new_Map pf = Inl e' \<Longrightarrow> e' = TypeError" using Entries by simp
    next
      case NotIterable
      then show "new_Map pf = Inl e' \<Longrightarrow> e' = TypeError" by simp
    qed
    with Some \<open>patterns_error d = Some e\<close> show ?thesis
      by (auto simp: patterns_error_def split: sum.splits)
  qed
qed

lemma malformed_data_error:
  "loadSequencerData_error page' malformed_data s = Some TypeError"
  by (simp add: loadSequencerData_error_def patterns_error_def malformed_data_def)

lemma unrenderable_data_loaded:
  "patterns (loadSequencerData unrenderable_data s)
     = [(''verse'', \<lparr>id_pattern = ''verse'', name_pattern = ''Verse'', tracks_pattern = Some []\<rparr>)]"
  "activePattern (loadSequencerData unrenderable_data s) = Some ''verse''"
  "map id_track (tracks (loadSequencerData unrenderable_data s)) = [''constructor'']"
  by (simp_all add: loadSequencerData_def unrenderable_data_def Let_def)

lemma unrenderable_data_error:
  "patterns_error unrenderable_data = None"
  "loadSequencerData_error studio_page unrenderable_data s = Some TypeError"
proof -
  show 1: "patterns_error unrenderable_data = None"
    by (simp add: patterns_error_def unrenderable_data_def)
  have "getPatternForTrack ''constructor'' (loadSequencerData unrenderable_data s) = Foreign"
    by (simp add: getPatternForTrack_def unrenderable_data_loaded obj_get_def proto_keys_def)
  moreover have "tracks (loadSequencerData unrenderable_data s)
      = [\<lparr>id_track = ''constructor'', name_track = ''Lead'', instrument_track = Synth,
          volume = 0.5, muted = False, solo = False, pattern_track = []\<rparr>]"
    by (simp add: loadSequencerData_fields unrenderable_data_def)
  ultimately have "renderTracks_error studio_page (loadSequencerData unrenderable_data s)
      = Some TypeError"
    by (simp add: renderTracks_error_def studio_page_def createPatternSteps_error_def)
  then show "loadSequencerData_error studio_page unrenderable_data s = Some TypeError"
    by (simp add: loadSequencerData_error_def 1)
qed

text \<open>
  Claim C5 as stated fails: on the malformed payload \<open>loadSequencerData\<close> raises a
  \<open>TypeError\<close>, and by then the tempo has gone from 120 to 90, the step duration from an
  eighth to a sixth of a second, and the track list has been replaced by the payload's
  empty one.
\<close>

theorem load_failure_counterexample:
  "loadSequencerData_error studio_page malformed_data initial_sequencer = Some TypeError
   \<and> bpm initial_sequencer = 120
   \<and> bpm (loadSequencerData malformed_data initial_sequencer) = 90
   \<and> stepDuration initial_sequencer = 1 / 8
   \<and> stepDuration (loadSequencerData malformed_data initial_sequencer) = 1 / 6
   \<and> tracks initial_sequencer \<noteq> []
   \<and> tracks (loadSequencerData malformed_data initial_sequencer) = []"
proof -
  have "tracks initial_sequencer \<noteq> []"
    using initial_sequencer_fields(9) by auto
  moreover have "stepsPerBeat initial_sequencer = 4"
    by (simp add: initial_sequencer_def new_Sequencer_def createDefaultPattern_def
        createDefaultTracks_def Let_def)
  moreover have "bpm (loadSequencerData malformed_data initial_sequencer) = 90"
    "tracks (loadSequencerData malformed_data initial_sequencer) = []"
    by (simp_all add: loadSequencerData_fields malformed_data_def)
  moreover have "stepDuration (loadSequencerData malformed_data initial_sequencer) = 1 / 6"
    using \<open>stepsPerBeat initial_sequencer = 4\<close>
    by (simp add: loadSequencerData_fields malformed_data_def)
  ultimately show ?thesis
    using malformed_data_error [of studio_page initial_sequencer]
    by (simp add: initial_sequencer_fields)
qed

text \<open>
  Claim C5, amended. When \<open>loadSequencerData\<close> fails on a project's payload, \<open>loadProject\<close>
  catches the exception and reports it with \<open>showError\<close>; the project does not become the
  current one and the effects and settings are not loaded. Nothing is rolled back: the
  tempo, with the step duration, and the tracks, which are assigned first, hold what the
  payload gave. When the exception is that of \<open>new Map\<close>, the sequencer keeps its patterns
  and its active pattern. Otherwise the exception is a \<open>TypeError\<close> of \<open>renderTracks\<close>,
  raised on a page with a tracks container after all four assignments: the patterns are
  then the map built from the payload, or the old ones for a payload without patterns,
  and the active pattern is the payload's, or the old one for a payload without a
  nonempty one.
\<close>

theorem loadProject_failure:
  assumes "find (\<lambda>p. id_project p = projectId) (projects a) = Some p"
    and "sequencerData p = Some d"
    and "loadSequencerData_error page' d (sequencer_app a) = Some e"
    and "s = sequencer_app a"
    and "s' = loadSequencerData d s"
  shows "loadProject page' projectId a =
           a\<lparr>sequencer_app := s',
             notification := Some (Failure ''Failed to load project. Please try again.'')\<rparr>
       \<and> e = TypeError
       \<and> bpm s' = (case bpm_data d of
                      Some b \<Rightarrow> if b \<noteq> 0 then max 60 (min 200 b) else bpm s
                    | None \<Rightarrow> bpm s)
       \<and> stepDuration s' = (case bpm_data d of
                               Some b \<Rightarrow> if b \<noteq> 0 then 60 / (max 60 (min 200 b) * stepsPerBeat s)
                                         else stepDuration s
                             | None \<Rightarrow> stepDuration s)
       \<and> tracks s' = (case tracks_data d of Some ts \<Rightarrow> ts | None \<Rightarrow> tracks s)
       \<and> (patterns_error d \<noteq> None \<longrightarrow>
            patterns_error d = Some e
            \<and> patterns s' = patterns s \<and> activePattern s' = activePattern s)
       \<and> (patterns_error d = None \<longrightarrow>
            tracksContainer page' \<and> renderTracks_error page' s' = Some e
            \<and> (\<forall>pf. patterns_data d = Some pf \<longrightarrow> new_Map pf = Inr (patterns s'))
            \<and> (patterns_data d = None \<longrightarrow> patterns s' = patterns s)
            \<and> activePattern s' = (case activePattern_data d of
                                     Some k \<Rightarrow> if k \<noteq> [] then Some k else activePattern s
                                   | None \<Rightarrow> activePattern s))"
proof -
  have 1: "loadProject page' projectId a =
           a\<lparr>sequencer_app := s',
             notification := Some (Failure ''Failed to load project. Please try again.'')\<rparr>"
    using assms by (simp add: loadProject_def loadProject_try_def Let_def)
  have err: "loadSequencerData_error page' d s = Some e"
    using assms(3,4) by simp
  have 2: "e = TypeError"
    using err by (rule loadSequencerData_error_TypeError)
  have 3: "patterns_error d = Some e \<and> patterns s' = patterns s
           \<and> activePattern s' = activePattern s" if "patterns_error d \<noteq> None"
    using that loadSequencerData_error_cases(1) [OF err]
      loadSequencerData_patterns_failed [of d s]
    by (simp add: assms(5))
  have 4: "tracksContainer page' \<and> renderTracks_error page' s' = Some e
            \<and> (\<forall>pf. patterns_data d = Some pf \<longrightarrow> new_Map pf = Inr (patterns s'))
            \<and> (patterns_data d = None \<longrightarrow> patterns s' = patterns s)
            \<and> activePattern s' = (case activePattern_data d of
                                     Some k \<Rightarrow> if k \<noteq> [] then Some k else activePattern s
                                   | None \<Rightarrow> activePattern s)" if "patterns_error d = None"
    using loadSequencerData_error_cases(2) [OF err that]
      loadSequencerData_patterns_read [OF that]
    by (simp add: assms(5))
  from 1 2 3 4 show ?thesis
    by (simp add: assms(5) loadSequencerData_fields)
qed

theorem loadProject_failure_witness:
  "loadSequencerData_error studio_page malformed_data initial_sequencer = Some TypeError
   \<and> notification (loadProject studio_page ''p1'' initial_app)
     = Some (Failure ''Failed to load project. Please try again.'')
   \<and> currentProject (loadProject studio_page ''p1'' initial_app) = None
   \<and> effectsManager (loadProject studio_page ''p1'' initial_app) = new_EffectsManager
   \<and> bpm (sequencer_app (loadProject studio_page ''p1'' initial_app)) = 90
   \<and> stepDuration (sequencer_app (loadProject studio_page ''p1'' initial_app)) = 1 / 6
   \<and> tracks (sequencer_app (loadProject studio_page ''p1'' initial_app)) = []
   \<and> patterns (sequencer_app (loadProject studio_page ''p1'' initial_app))
     = patterns initial_sequencer
   \<and> activePattern (sequencer_app (loadProject studio_page ''p1'' initial_app))
     = Some ''default-pattern''
   \<and> loadSequencerData_error studio_page unrenderable_data initial_sequencer = Some TypeError
   \<and> notification (loadProject studio_page ''p2'' initial_app)
     = Some (Failure ''Failed to load project. Please try again.'')
   \<and> currentProject (loadProject studio_page ''p2'' initial_app) = None
   \<and> bpm (sequencer_app (loadProject studio_page ''p2'' initial_app)) = 90
   \<and> stepDuration (sequencer_app (loadProject studio_page ''p2'' initial_app)) = 1 / 6
   \<and> map id_track (tracks (sequencer_app (loadProject studio_page ''p2'' initial_app)))
     = [''constructor'']
   \<and> patterns (sequencer_app (loadProject studio_page ''p2'' initial_app))
     = [(''verse'', \<lparr>id_pattern = ''verse'', name_pattern = ''Verse'', tracks_pattern = Some []\<rparr>)]
   \<and> activePattern (sequencer_app (loadProject studio_page ''p2'' initial_app))
     = Some ''verse''"
proof -
  have f1: "find (\<lambda>p. id_project p = ''p1'') (projects initial_app) = Some malformed_project"
    by (simp add: initial_app_def malformed_project_def)
  have d1: "sequencerData malformed_project = Some malformed_data"
    by (simp add: malformed_project_def)
  have e1: "loadSequencerData_error studio_page malformed_data (sequencer_app initial_app)
        = Some TypeError"
    by (rule malformed_data_error)
  have f2: "find (\<lambda>p. id_project p = ''p2'') (projects initial_app) = Some unrenderable_project"
    by (simp add: initial_app_def malformed_project_def unrenderable_project_def)
  have d2: "sequencerData unrenderable_project = Some unrenderable_data"
    by (simp add: unrenderable_project_def)
  have e2: "loadSequencerData_error studio_page unrenderable_data (sequencer_app initial_app)
        = Some TypeError"
    by (rule unrenderable_data_error(2))
  have s: "sequencer_app initial_app = initial_sequencer"
    by (simp add: initial_app_def)
  have m: "patterns_error malformed_data = Some TypeError"
    by (simp add: patterns_error_def malformed_data_def)
  have b: "stepsPerBeat initial_sequencer = 4"
    by (simp add: initial_sequencer_def new_Sequencer_def createDefaultPattern_def
        createDefaultTracks_def Let_def)
  have p1: "loadProject studio_page ''p1'' initial_app =
           initial_app\<lparr>sequencer_app := loadSequencerData malformed_data initial_sequencer,
             notification := Some (Failure ''Failed to load project. Please try again.'')\<rparr>"
    and q1: "patterns (loadSequencerData malformed_data initial_sequencer)
               = patterns initial_sequencer"
      "activePattern (loadSequencerData malformed_data initial_sequencer)
               = activePattern initial_sequencer"
    using loadProject_failure [OF f1 d1 e1 s [symmetric] refl] by (simp_all add: m)
  have p2: "loadProject studio_page ''p2'' initial_app =
           initial_app\<lparr>sequencer_app := loadSequencerData unrenderable_data initial_sequencer,
             notification := Some (Failure ''Failed to load project. Please try again.'')\<rparr>"
    using loadProject_failure [OF f2 d2 e2 s [symmetric] refl] by simp
  have i: "currentProject initial_app = None" "effectsManager initial_app = new_EffectsManager"
    by (simp_all add: initial_app_def)
  have 1: "bpm (loadSequencerData malformed_data initial_sequencer) = 90"
    "stepDuration (loadSequencerData malformed_data initial_sequencer) = 1 / 6"
    "tracks (loadSequencerData malformed_data initial_sequencer) = []"
    by (simp_all add: loadSequencerData_fields malformed_data_def b)
  have 2: "bpm (loadSequencerData unrenderable_data initial_sequencer) = 90"
    "stepDuration (loadSequencerData unrenderable_data initial_sequencer) = 1 / 6"
    by (simp_all add: loadSequencerData_fields unrenderable_data_def b)
  show ?thesis
    using e1 e2
    by (simp add: s p1 p2 q1 i 1 2 unrenderable_data_loaded initial_sequencer_store)
qed

section \<open>The step count of the patterns\<close>

text \<open>
  Under the data model's step count the array addressed through an entry has sixteen
  steps; the constructed sequencer satisfies it, and every operation other than loading
  foreign data keeps it.
\<close>

lemma sixteen_steps_addressed:
  assumes "sixteen_steps s" "has_entry t s"
  shows "length (steps_of (getPatternForTrack t s)) = 16"
proof -
  from assms(2) obtain k p trs steps where
    "activePattern s = Some k" "map_of (patterns s) k = Some p" "tracks_pattern p = Some trs"
    "map_of trs t = Some steps" "getPatternForTrack t s = Stored steps"
    by (auto simp: has_entry_def getPatternForTrack_def obj_get_def
        split: option.splits if_splits)
  moreover from this have "(k, p) \<in> set (patterns s)" "(t, steps) \<in> set trs"
    by (auto dest: map_of_SomeD)
  moreover from assms(1) have
    "\<forall>x \<in> set (patterns s). case tracks_pattern (snd x) of
         None \<Rightarrow> True
       | Some trs \<Rightarrow> \<forall>y \<in> set trs. length (snd y) = 16"
    by (simp add: sixteen_steps_def list_all_iff cong: option.case_cong)
  ultimately show ?thesis
    by fastforce
qed

lemma sixteen_steps_initial: "sixteen_steps initial_sequencer"
  by (simp add: sixteen_steps_def initial_sequencer_store)

lemma list_all_update_first:
  assumes "list_all P xs" "\<And>x. P x \<Longrightarrow> P (f x)"
  shows "list_all P (update_first Q f xs)"
  using assms by (induction xs) auto

lemma sixteen_steps_write_step:
  assumes "sixteen_steps s"
  shows "sixteen_steps (write_step t i f s)"
proof -
  let ?ok = "\<lambda>ts :: string \<times> step list. length (snd ts) = 16"
  let ?OK = "\<lambda>kp :: string \<times> pattern_obj. case tracks_pattern (snd kp) of
                        None \<Rightarrow> True
                      | Some trs \<Rightarrow> list_all ?ok trs"
  have tot: "totalSteps (write_step t i f s) = totalSteps s"
    by simp
  have keep: "list_all ?ok
        (update_first (\<lambda>(t', steps). t' = t) (\<lambda>(t', steps). (t', steps[n := f (steps ! n)])) trs)"
    if "list_all ?ok trs" for trs n
    using that by (intro list_all_update_first) auto
  have "list_all ?OK (patterns (modify_step t n f s))" for n
  proof (cases "activePattern s")
    case None
    then show ?thesis using assms by (simp add: modify_step_def sixteen_steps_def)
  next
    case (Some k)
    have "list_all ?OK
       (update_first (\<lambda>(k', p). k' = k)
                (\<lambda>(k', p). (k', p\<lparr>tracks_pattern :=
                     map_option
                       (update_first (\<lambda>(t', steps). t' = t)
                          (\<lambda>(t', steps). (t', steps[n := f (steps ! n)])))
                       (tracks_pattern p)\<rparr>))
                (patterns s))"
    proof (rule list_all_update_first)
      show "list_all ?OK (patterns s)"
        using assms by (simp add: sixteen_steps_def)
    next
      fix x :: "string \<times> pattern_obj"
      assume x: "?OK x"
      obtain k' p where kp: "x = (k', p)" by (cases x)
      show "?OK ((\<lambda>(k', p). (k', p\<lparr>tracks_pattern :=
                     map_option
                       (update_first (\<lambda>(t', steps). t' = t)
                          (\<lambda>(t', steps). (t', steps[n := f (steps ! n)])))
                       (tracks_pattern p)\<rparr>)) x)"
        using x unfolding kp by (cases "tracks_pattern p") (simp_all add: keep)
    qed
    then show ?thesis using Some by (simp add: modify_step_def)
  qed
  then show ?thesis
    using assms tot
    by (auto simp: sixteen_steps_def write_step_def split: steps_ref.splits option.splits)
qed

lemma sixteen_steps_frame:
  "scheduler_frame s s' \<Longrightarrow> sixteen_steps s \<Longrightarrow> sixteen_steps s'"
  by (cases s, cases s') (simp add: scheduler_frame_def sixteen_steps_def)

lemma sixteen_steps_exec:
  assumes "sixteen_steps s" "timing_ok s" "exec op s = Some s'" "\<And>d. op \<noteq> LoadSequencerData d"
  shows "sixteen_steps s'"
proof (cases op)
  case TimerTick
  show ?thesis
  proof (cases "schedulerInterval s")
    case True
    with TimerTick assms(3) have r: "scheduleLoop (getCurrentTime (audioEngine s)) s = Some s'"
      by (simp add: scheduleSteps_def)
    from scheduleLoop_returns [OF timing_ok_positive [OF assms(2)]] obtain s''
      where "scheduleLoop (getCurrentTime (audioEngine s)) s = Some s''"
        "scheduler_frame s s''" by blast
    with r have "scheduler_frame s s'" by simp
    then show ?thesis using assms(1) by (rule sixteen_steps_frame)
  next
    case False
    with TimerTick assms show ?thesis by simp
  qed
next
  case (LoadSequencerData d)
  with assms(4) [of d] show ?thesis by simp
next
  case (ToggleStep t i)
  with assms show ?thesis using sixteen_steps_write_step by (auto simp: toggleStep_def)
next
  case (ClearStep t i)
  with assms show ?thesis using sixteen_steps_write_step by (auto simp: clearStep_def)
next
  case (SetStepNote t i n)
  with assms show ?thesis using sixteen_steps_write_step by (auto simp: promptForNote_def)
next
  case (SetStepVelocity t i v)
  with assms show ?thesis using sixteen_steps_write_step by (auto simp: promptForVelocity_def)
qed (use assms in \<open>auto simp: sixteen_steps_def setBPM_def setTrackVolume_def toggleTrackMute_def
      toggleTrackSolo_def play_def pause_def stop_def toggleRecord_def startScheduler_def
      stopScheduler_def Let_def split: option.splits\<close>)

end
